theory Spec2Isabelle
  imports Main
begin

section \<open>JavaScript strings and insertion-ordered maps\<close>

text \<open>\<^verbatim>\<open>s.startsWith(p)\<close>: the string \<open>s\<close> begins with \<open>p\<close>.\<close>

fun startsWith :: "string \<Rightarrow> string \<Rightarrow> bool" where
  "startsWith s [] = True"
| "startsWith [] (c # p) = False"
| "startsWith (x # s) (c # p) = (x = c \<and> startsWith s p)"

text \<open>\<^verbatim>\<open>s.includes(p)\<close>: \<open>p\<close> occurs in \<open>s\<close> as a contiguous substring. A regular
  expression without metacharacters, as in \<^verbatim>\<open>/Access denied for user/.test(s)\<close>, is the
  same test.\<close>

fun includes_str :: "string \<Rightarrow> string \<Rightarrow> bool" where
  "includes_str [] p = startsWith [] p"
| "includes_str (x # s) p = (startsWith (x # s) p \<or> includes_str s p)"

text \<open>\<^verbatim>\<open>s.split(c)\<close> for a one-character separator; the result is never empty.\<close>

fun split :: "string \<Rightarrow> char \<Rightarrow> string list" where
  "split [] c = [[]]"
| "split (x # s) c =
     (if x = c then [] # split s c
      else (case split s c of [] \<Rightarrow> [[x]] | w # ws \<Rightarrow> (x # w) # ws))"

text \<open>A JavaScript \<^verbatim>\<open>Map\<close> as the list of its entries in insertion order:
  \<^verbatim>\<open>set\<close> overwrites the value of a key already present, where it stands, and appends a
  new key at the end; \<^verbatim>\<open>get\<close> is \<^const>\<open>map_of\<close>, \<^verbatim>\<open>keys()\<close> is \<open>map fst\<close>, \<^verbatim>\<open>size\<close>
  is \<^const>\<open>length\<close>.\<close>

fun map_set :: "'k \<Rightarrow> 'v \<Rightarrow> ('k \<times> 'v) list \<Rightarrow> ('k \<times> 'v) list" where
  "map_set k v [] = [(k, v)]"
| "map_set k v (p # ps) = (if fst p = k then (k, v) # ps else p # map_set k v ps)"

text \<open>Truthiness of a string-valued expression that may be \<^verbatim>\<open>undefined\<close>: only a non-empty
  string is truthy.\<close>

fun truthy :: "string option \<Rightarrow> bool" where
  "truthy None = False"
| "truthy (Some s) = (s \<noteq> [])"

text \<open>A possibly undefined string inside a template literal.\<close>

fun template :: "string option \<Rightarrow> string" where
  "template None = ''undefined''"
| "template (Some s) = s"

section \<open>Data model\<close>

text \<open>Project metadata (\<^verbatim>\<open>amplify-meta\<close>). A category is the list of its properties, name
  and resource, in the order \<^verbatim>\<open>Object.keys\<close> enumerates them.\<close>

record resource =
  service :: "string option"

record awscloudformation_meta =
  Region :: "string option"

record providers_meta =
  awscloudformation :: "awscloudformation_meta option"

record amplify_meta =
  providers :: "providers_meta option"
  api :: "(string \<times> resource) list option"

record project =
  amplifyMeta :: "amplify_meta option"

text \<open>The host context: what \<^verbatim>\<open>context.amplify.getProjectMeta()\<close> returns, and the
  \<^verbatim>\<open>isPostgres\<close> property, absent until something sets it.\<close>

record host_context =
  projectMeta :: "amplify_meta option"
  isPostgres :: "bool option"

text \<open>One entry of \<^verbatim>\<open>datasourceMetadata.inputs\<close>, and the metadata bundle (its
  \<^verbatim>\<open>inputs\<close> property is the field \<open>metadata_inputs\<close>).\<close>

record walkthrough_input =
  input_type :: string
  input_key :: string
  input_question :: string

record datasource_metadata =
  metadata_inputs :: "walkthrough_input list"
  availableRegions :: "string list"

text \<open>The question object handed to \<^verbatim>\<open>inquirer.prompt\<close>. A choice can be \<^verbatim>\<open>undefined\<close>
  (a row whose first field has no \<^verbatim>\<open>stringValue\<close>).\<close>

record question =
  q_type :: string
  q_name :: string
  q_message :: string
  q_choices :: "string option list"

text \<open>Provider SDK values.\<close>

record aws_client =
  config_region :: "string option"

record cluster =
  DBClusterIdentifier :: string
  DBClusterArn :: string
  DbClusterResourceId :: string
  Engine :: string
  EngineMode :: string

record secret =
  Name :: string
  ARN :: string

record list_secrets_params =
  MaxResults :: nat
  ParamNextToken :: "string option"

record secrets_page =
  SecretList :: "secret list"
  NextToken :: "string option"

text \<open>The class \<^verbatim>\<open>DataApiParams\<close> is declared in graphql-relational-schema-transformer;
  the record has the three fields the walkthrough assigns before the statement-execution
  call.\<close>

record data_api_params =
  secretArn :: "string option"
  resourceArn :: string
  sql :: string

record field =
  stringValue :: "string option"

record statement_result =
  records :: "field list list option"

text \<open>A thrown value: \<^verbatim>\<open>err.code\<close> and \<^verbatim>\<open>err.message\<close>. A \<^verbatim>\<open>TypeError\<close> of the
  language has no code; its message names the access that failed.\<close>

record js_error =
  code :: "string option"
  message :: string

definition TypeError :: "string \<Rightarrow> js_error" where
  "TypeError msg = \<lparr>code = None, message = msg\<rparr>"

text \<open>The two error classes of amplify-cli-core that the walkthrough instantiates, each
  with its message, for \<^verbatim>\<open>usageData.emitError\<close>.\<close>

datatype error_kind = ResourceDoesNotExistError | ResourceCredentialsNotFoundError

section \<open>Effects\<close>

text \<open>Everything the walkthrough does to the outside, in the order it happens.\<close>

datatype event =
    PrintError string
  | EmitError error_kind string
  | ExitOnNextTick nat
  | Prompt question
  | GetConfiguredAWSClient string string
  | ConfigUpdate string
  | DescribeDBClusters aws_client "string option"
  | ListSecrets aws_client list_secrets_params
  | ExecuteStatement aws_client data_api_params
  | SpinnerStart string
  | SpinnerSucceed string
  | SpinnerFail string

text \<open>The external collaborators: the user's answer to a question, the client the provider
  plugin hands out, and the three provider calls, each of which can reject. The prompt
  library, the plugin, the print channel and the telemetry call are taken to succeed.\<close>

record env =
  prompt :: "question \<Rightarrow> string"
  getConfiguredAWSClient :: "host_context \<Rightarrow> string \<Rightarrow> string \<Rightarrow> aws_client"
  describeDBClusters :: "aws_client \<Rightarrow> string option \<Rightarrow> js_error + cluster list"
  listSecrets :: "aws_client \<Rightarrow> list_secrets_params \<Rightarrow> js_error + secrets_page"
  executeStatement :: "aws_client \<Rightarrow> data_api_params \<Rightarrow> js_error + statement_result"

text \<open>The state a step runs in: the host context, the SDK client object once the provider
  plugin has handed it out (the walkthrough holds a reference to it, so a write to it is a
  write in place), and the trace.\<close>

record state =
  ctx :: host_context
  client :: "aws_client option"
  trace :: "event list"

text \<open>How an async function ends: it returns, the process exits, or it throws.\<close>

datatype 'a outcome = Returned 'a | Exited nat | Threw js_error

type_synonym 'a prog = "state \<Rightarrow> 'a outcome \<times> state"

definition emit :: "event \<Rightarrow> state \<Rightarrow> state" where
  "emit e s = s\<lparr>trace := trace s @ [e]\<rparr>"

definition return :: "'a \<Rightarrow> 'a prog" where
  "return a s = (Returned a, s)"

definition throw :: "js_error \<Rightarrow> 'a prog" where
  "throw e s = (Threw e, s)"

definition andThen :: "'a prog \<Rightarrow> ('a \<Rightarrow> 'b prog) \<Rightarrow> 'b prog" where
  "andThen m f s =
     (case m s of
        (Returned a, s') \<Rightarrow> f a s'
      | (Exited n, s') \<Rightarrow> (Exited n, s')
      | (Threw e, s') \<Rightarrow> (Threw e, s'))"

text \<open>Modelled from the spec: \<^verbatim>\<open>exitOnNextTick\<close> of amplify-cli-core is not among the
  sources. The specification describes it as an immediate-terminate primitive: every
  terminal condition is a hard stop, a process-level exit, and nothing of the walkthrough
  runs after it.\<close>

definition exitOnNextTick :: "nat \<Rightarrow> 'a prog" where
  "exitOnNextTick n s = (Exited n, emit (ExitOnNextTick n) s)"

text \<open>The three statements every failure path of the walkthrough consists of:
  \<^verbatim>\<open>context.print.error(errMessage); await context.usageData.emitError(new K(errMessage));
  exitOnNextTick(0);\<close>\<close>

definition reportAndExit :: "error_kind \<Rightarrow> string \<Rightarrow> 'a prog" where
  "reportAndExit k errMessage s =
     exitOnNextTick 0 (emit (EmitError k errMessage) (emit (PrintError errMessage) s))"

section \<open>The default generator\<close>

record ref =
  Ref :: string

record defaults =
  resourceName :: string
  region :: "string option"
  convertPolicyName :: string
  authRoleName :: ref
  unauthRoleName :: ref

text \<open>\<^verbatim>\<open>const [shortId] = uuid.v4().split('-')\<close>, for the string \<open>uuid\<close> that
  \<^verbatim>\<open>uuid.v4()\<close> returned.\<close>

definition shortId :: "string \<Rightarrow> string option" where
  "shortId uuid = (case split uuid CHR ''-'' of [] \<Rightarrow> None | w # ws \<Rightarrow> Some w)"

definition getAllDefaults :: "project \<Rightarrow> string \<Rightarrow> js_error + defaults" where
  "getAllDefaults p uuid =
     (case amplifyMeta p of
        None \<Rightarrow> Inl (TypeError ''project.amplifyMeta is undefined'')
      | Some m \<Rightarrow>
     (case providers m of
        None \<Rightarrow> Inl (TypeError ''project.amplifyMeta.providers is undefined'')
      | Some ps \<Rightarrow>
     (case awscloudformation ps of
        None \<Rightarrow> Inl (TypeError ''project.amplifyMeta.providers.awscloudformation is undefined'')
      | Some cfn \<Rightarrow>
          Inr \<lparr>resourceName = template (shortId uuid),
               region = Region cfn,
               convertPolicyName = ''Policy'' @ template (shortId uuid),
               authRoleName = \<lparr>Ref = ''AuthRoleName''\<rparr>,
               unauthRoleName = \<lparr>Ref = ''UnauthRoleName''\<rparr>\<rparr>)))"

section \<open>The walkthrough\<close>

text \<open>A step that contains the pagination loop need not return at all.\<close>

type_synonym 'a pprog = "state \<Rightarrow> ('a outcome \<times> state) option"

definition total :: "'a prog \<Rightarrow> 'a pprog" where
  "total m s = Some (m s)"

definition andThenP :: "'a pprog \<Rightarrow> ('a \<Rightarrow> 'b pprog) \<Rightarrow> 'b pprog" where
  "andThenP m f s =
     (case m s of
        None \<Rightarrow> None
      | Some (Returned a, s') \<Rightarrow> f a s'
      | Some (Exited n, s') \<Rightarrow> Some (Exited n, s')
      | Some (Threw e, s') \<Rightarrow> Some (Threw e, s'))"

subsection \<open>promptWalkthroughQuestion and getAwsClient\<close>

definition promptWalkthroughQuestion ::
  "env \<Rightarrow> walkthrough_input list \<Rightarrow> nat \<Rightarrow> string option list \<Rightarrow> string prog" where
  "promptWalkthroughQuestion e inputs questionNumber choicesList s =
     (if questionNumber < length inputs then
        (let question =
           \<lparr>q_type = input_type (inputs ! questionNumber),
            q_name = input_key (inputs ! questionNumber),
            q_message = input_question (inputs ! questionNumber),
            q_choices = choicesList\<rparr>
         in (Returned (prompt e question), emit (Prompt question) s))
      else throw (TypeError ''inputs[questionNumber] is undefined'') s)"

text \<open>The provider plugin hands out its client object: from here on the object is in the
  state, and the value returned stands for the reference \<^verbatim>\<open>AWS\<close>.\<close>

definition getAwsClient :: "env \<Rightarrow> string \<Rightarrow> aws_client prog" where
  "getAwsClient e action s =
     (Returned (getConfiguredAWSClient e (ctx s) ''aurora-serverless'' action),
      emit (GetConfiguredAWSClient ''aurora-serverless'' action)
        (s\<lparr>client := Some (getConfiguredAWSClient e (ctx s) ''aurora-serverless'' action)\<rparr>))"

text \<open>\<^verbatim>\<open>AWS.config.update({ region: selectedRegion })\<close> writes the region into the client
  object that \<^verbatim>\<open>AWS\<close> refers to, in place: the object in the state changes. Every later
  step reads the configuration through the same reference when it constructs its service
  object, and nothing writes the client after this update, so the steps are handed the
  contents the object has from here on.\<close>

definition configUpdate :: "aws_client \<Rightarrow> string \<Rightarrow> aws_client prog" where
  "configUpdate AWS selectedRegion s =
     (Returned (AWS\<lparr>config_region := Some selectedRegion\<rparr>),
      emit (ConfigUpdate selectedRegion)
        (s\<lparr>client := Some (AWS\<lparr>config_region := Some selectedRegion\<rparr>)\<rparr>))"

subsection \<open>selectCluster\<close>

text \<open>The loop that fills the \<^verbatim>\<open>clusters\<close> map.\<close>

fun serverlessClusters :: "cluster list \<Rightarrow> (string \<times> cluster) list \<Rightarrow> (string \<times> cluster) list" where
  "serverlessClusters [] clusters = clusters"
| "serverlessClusters (c # rawClusters) clusters =
     serverlessClusters rawClusters
       (if EngineMode c = ''serverless'' then map_set (DBClusterIdentifier c) c clusters
        else clusters)"

definition selectCluster ::
  "env \<Rightarrow> walkthrough_input list \<Rightarrow> aws_client \<Rightarrow> (string \<times> string) prog" where
  "selectCluster e inputs AWS s =
     (case describeDBClusters e AWS None of
        Inl err \<Rightarrow> (Threw err, emit (DescribeDBClusters AWS None) s)
      | Inr rawClusters \<Rightarrow>
          (let clusters = serverlessClusters rawClusters [] in
           if length clusters > 0 then
             andThen (promptWalkthroughQuestion e inputs 1 (map (\<lambda>p. Some (fst p)) clusters))
               (\<lambda>clusterIdentifier.
                  case map_of clusters clusterIdentifier of
                    None \<Rightarrow> throw (TypeError ''selectedCluster is undefined'')
                  | Some selectedCluster \<Rightarrow>
                      return (DBClusterArn selectedCluster, DbClusterResourceId selectedCluster))
               (emit (DescribeDBClusters AWS None) s)
           else
             reportAndExit ResourceDoesNotExistError
               ''No properly configured Aurora Serverless clusters found.''
               (emit (DescribeDBClusters AWS None) s)))"

subsection \<open>getSecretStoreArn\<close>

text \<open>The \<^verbatim>\<open>while (token)\<close> loop: \<open>rawSecrets\<close> and \<open>token\<close> are its variables, and
  \<^verbatim>\<open>params\<close> carries \<^verbatim>\<open>MaxResults: 20\<close> and the token of the page before.\<close>

partial_function (option) listMoreSecrets ::
  "env \<Rightarrow> aws_client \<Rightarrow> secret list \<Rightarrow> string option \<Rightarrow> state
     \<Rightarrow> (secret list outcome \<times> state) option" where
  "listMoreSecrets e AWS rawSecrets token s =
     (if truthy token then
        (case listSecrets e AWS \<lparr>MaxResults = 20, ParamNextToken = token\<rparr> of
           Inl err \<Rightarrow>
             Some (Threw err,
                   emit (ListSecrets AWS \<lparr>MaxResults = 20, ParamNextToken = token\<rparr>) s)
         | Inr tempSecretsResult \<Rightarrow>
             listMoreSecrets e AWS (rawSecrets @ SecretList tempSecretsResult)
               (NextToken tempSecretsResult)
               (emit (ListSecrets AWS \<lparr>MaxResults = 20, ParamNextToken = token\<rparr>) s))
      else Some (Returned rawSecrets, s))"

text \<open>The first call and the loop: the merged listing.\<close>

definition listAllSecrets :: "env \<Rightarrow> aws_client \<Rightarrow> secret list pprog" where
  "listAllSecrets e AWS s =
     (case listSecrets e AWS \<lparr>MaxResults = 20, ParamNextToken = None\<rparr> of
        Inl err \<Rightarrow>
          Some (Threw err, emit (ListSecrets AWS \<lparr>MaxResults = 20, ParamNextToken = None\<rparr>) s)
      | Inr listSecretsResult \<Rightarrow>
          listMoreSecrets e AWS (SecretList listSecretsResult) (NextToken listSecretsResult)
            (emit (ListSecrets AWS \<lparr>MaxResults = 20, ParamNextToken = None\<rparr>) s))"

text \<open>The \<^verbatim>\<open>for\<close> loop over \<open>rawSecrets\<close>: it stops at the first name with the prefix,
  and stores every secret before that one in the \<^verbatim>\<open>secrets\<close> map.\<close>

fun scanSecrets ::
  "string \<Rightarrow> secret list \<Rightarrow> (string \<times> string) list \<Rightarrow> string option \<times> (string \<times> string) list" where
  "scanSecrets pre [] secrets = (None, secrets)"
| "scanSecrets pre (r # rawSecrets) secrets =
     (if startsWith (Name r) pre then (Some (ARN r), secrets)
      else scanSecrets pre rawSecrets (map_set (Name r) (ARN r) secrets))"

definition chooseSecret ::
  "env \<Rightarrow> walkthrough_input list \<Rightarrow> string \<Rightarrow> secret list \<Rightarrow> string option prog" where
  "chooseSecret e inputs clusterResourceId rawSecrets =
     (case scanSecrets (''rds-db-credentials/'' @ clusterResourceId) rawSecrets [] of
        (selectedSecretArn, secrets) \<Rightarrow>
          if \<not> truthy selectedSecretArn then
            (if length secrets > 0 then
               andThen (promptWalkthroughQuestion e inputs 2 (map (\<lambda>p. Some (fst p)) secrets))
                 (\<lambda>selectedSecretName. return (map_of secrets selectedSecretName))
             else
               reportAndExit ResourceCredentialsNotFoundError
                 ''No RDS access credentials found in the AWS Secrect Manager.'')
          else return selectedSecretArn)"

definition getSecretStoreArn ::
  "env \<Rightarrow> walkthrough_input list \<Rightarrow> string \<Rightarrow> aws_client \<Rightarrow> string option pprog" where
  "getSecretStoreArn e inputs clusterResourceId AWS =
     andThenP (listAllSecrets e AWS)
       (\<lambda>rawSecrets. total (chooseSecret e inputs clusterResourceId rawSecrets))"

subsection \<open>selectDatabase\<close>

definition validRecordValues :: "bool \<Rightarrow> string list" where
  "validRecordValues pg =
     (if pg then [''rdsadmin'', ''postgres'', ''template1'', ''template0'']
      else [''information_schema'', ''performance_schema'', ''mysql''])"

text \<open>The \<^verbatim>\<open>for (const record of records)\<close> loop. It pushes onto \<open>databaseList\<close>, which
  lives outside the \<^verbatim>\<open>try\<close> block, so what was pushed before a row without a first
  field throws is kept.\<close>

fun collectDatabases ::
  "string list \<Rightarrow> field list list \<Rightarrow> string option list \<Rightarrow> string option list \<times> js_error option" where
  "collectDatabases valid [] databaseList = (databaseList, None)"
| "collectDatabases valid ([] # rest) databaseList =
     (databaseList, Some (TypeError ''record[0] is undefined''))"
| "collectDatabases valid ((f # fs) # rest) databaseList =
     collectDatabases valid rest
       (if stringValue f \<notin> set (map Some valid) then databaseList @ [stringValue f]
        else databaseList)"

text \<open>The \<^verbatim>\<open>catch (err)\<close> block and its message \<^verbatim>\<open>msg\<close> (the variable \<^verbatim>\<open>secretArn\<close>
  is written \<open>secretArn'\<close>, the plain name being the field of \<^verbatim>\<open>params\<close>).\<close>

definition msg :: "string option \<Rightarrow> string" where
  "msg secretArn' =
     ''Ensure that '' @ [CHR 0x27] @ template secretArn' @ [CHR 0x27]
     @ '' contains your database credentials. ''
     @ ''Please note that Aurora Serverless does not support IAM database authentication.''"

definition catchBlock :: "string option \<Rightarrow> js_error \<Rightarrow> state \<Rightarrow> state" where
  "catchBlock secretArn' err s =
     (if code err = Some ''BadRequestException''
         \<and> includes_str (message err) ''Access denied for user''
      then emit (PrintError (msg secretArn')) (emit (SpinnerFail (message err)) s)
      else emit (SpinnerFail (message err)) s)"

text \<open>The \<^verbatim>\<open>try\<close> statement: the candidate list and the state after it.\<close>

definition fetchDatabases ::
  "env \<Rightarrow> aws_client \<Rightarrow> data_api_params \<Rightarrow> bool \<Rightarrow> state \<Rightarrow> string option list \<times> state" where
  "fetchDatabases e AWS params pg s =
     (case executeStatement e AWS params of
        Inl err \<Rightarrow> ([], catchBlock (secretArn params) err (emit (ExecuteStatement AWS params) s))
      | Inr dataApiResult \<Rightarrow>
          (case records dataApiResult of
             None \<Rightarrow>
               ([], catchBlock (secretArn params) (TypeError ''records is not iterable'')
                      (emit (ExecuteStatement AWS params) s))
           | Some recs \<Rightarrow>
               (case collectDatabases (validRecordValues pg) recs [] of
                  (databaseList, Some err) \<Rightarrow>
                    (databaseList,
                     catchBlock (secretArn params) err (emit (ExecuteStatement AWS params) s))
                | (databaseList, None) \<Rightarrow>
                    (databaseList,
                     emit (SpinnerSucceed ''Fetched Aurora Serverless cluster.'')
                       (emit (ExecuteStatement AWS params) s)))))"

text \<open>\<^verbatim>\<open>context.isPostgres = ...\<close> writes the property of the host context, and the two
  conditionals that follow read it back.\<close>

definition setIsPostgres :: "bool \<Rightarrow> state \<Rightarrow> state" where
  "setIsPostgres b s = s\<lparr>ctx := (ctx s)\<lparr>isPostgres := Some b\<rparr>\<rparr>"

definition selectDatabase ::
  "env \<Rightarrow> walkthrough_input list \<Rightarrow> string \<Rightarrow> string option \<Rightarrow> aws_client \<Rightarrow> string prog" where
  "selectDatabase e inputs clusterArn secretArn' AWS s =
     (case describeDBClusters e AWS (Some clusterArn) of
        Inl err \<Rightarrow> (Threw err, emit (DescribeDBClusters AWS (Some clusterArn)) s)
      | Inr DBClusters \<Rightarrow>
          (let s1 = setIsPostgres
                      (list_ex (\<lambda>cluster. includes_str (Engine cluster) ''postgres'') DBClusters)
                      (emit (DescribeDBClusters AWS (Some clusterArn)) s);
               pg = (isPostgres (ctx s1) = Some True);
               params = \<lparr>secretArn = secretArn', resourceArn = clusterArn,
                         sql = (if pg then ''SELECT datname FROM pg_database;''
                                else ''show databases'')\<rparr>
           in case fetchDatabases e AWS params pg
                     (emit (SpinnerStart ''Fetching Aurora Serverless cluster...'') s1) of
                (databaseList, s2) \<Rightarrow>
                  if length databaseList > 0 then
                    promptWalkthroughQuestion e inputs 3 databaseList s2
                  else
                    reportAndExit ResourceDoesNotExistError
                      ''No properly configured databases found.'' s2))"

subsection \<open>serviceWalkthrough\<close>

record walkthrough_result =
  region :: string
  dbClusterArn :: string
  secretStoreArn :: "string option"
  databaseName :: string
  resourceName :: string

definition errMessage :: string where
  "errMessage =
     ''You must create an AppSync API in your project before adding a graphql datasource. ''
     @ ''Please use '' @ [CHR 0x22] @ ''amplify api add'' @ [CHR 0x22] @ '' to create the API.''"

text \<open>The loop that looks for the AppSync API resource name.\<close>

fun findAppSyncApi :: "(string \<times> resource) list \<Rightarrow> string option" where
  "findAppSyncApi [] = None"
| "findAppSyncApi ((name, r) # apis) =
     (if service r = Some ''AppSync'' then Some name else findAppSyncApi apis)"

text \<open>The first two blocks of \<^verbatim>\<open>serviceWalkthrough\<close>: the API category must exist and
  have a property, and the loop must find a name that is truthy.\<close>

definition requireAppSyncApi :: "string prog" where
  "requireAppSyncApi s =
     (case projectMeta (ctx s) of
        None \<Rightarrow> reportAndExit ResourceDoesNotExistError errMessage s
      | Some amplifyMeta' \<Rightarrow>
     (case api amplifyMeta' of
        None \<Rightarrow> reportAndExit ResourceDoesNotExistError errMessage s
      | Some apis \<Rightarrow>
          if length apis = 0 then reportAndExit ResourceDoesNotExistError errMessage s
          else (case findAppSyncApi apis of
                  None \<Rightarrow> reportAndExit ResourceDoesNotExistError errMessage s
                | Some appSyncApi \<Rightarrow>
                    if appSyncApi = [] then reportAndExit ResourceDoesNotExistError errMessage s
                    else return appSyncApi s)))"

definition serviceWalkthrough ::
  "env \<Rightarrow> string \<Rightarrow> datasource_metadata \<Rightarrow> walkthrough_result pprog" where
  "serviceWalkthrough e defaultValuesFilename datasourceMetadata =
     andThenP (total requireAppSyncApi) (\<lambda>appSyncApi.
     andThenP (total (promptWalkthroughQuestion e (metadata_inputs datasourceMetadata) 0
                        (map Some (availableRegions datasourceMetadata)))) (\<lambda>selectedRegion.
     andThenP (total (getAwsClient e ''list'')) (\<lambda>AWS0.
     andThenP (total (configUpdate AWS0 selectedRegion)) (\<lambda>AWS.
     andThenP (total (selectCluster e (metadata_inputs datasourceMetadata) AWS))
       (\<lambda>(selectedClusterArn, clusterResourceId).
     andThenP (getSecretStoreArn e (metadata_inputs datasourceMetadata) clusterResourceId AWS)
       (\<lambda>selectedSecretArn.
     andThenP (total (selectDatabase e (metadata_inputs datasourceMetadata) selectedClusterArn
                        selectedSecretArn AWS)) (\<lambda>selectedDatabase.
     total (return
       \<lparr>region = selectedRegion,
        dbClusterArn = selectedClusterArn,
        secretStoreArn = selectedSecretArn,
        databaseName = selectedDatabase,
        resourceName = appSyncApi\<rparr>))))))))"

section \<open>Notions of the specification\<close>

text \<open>The names of the API resources tagged as the target service type, in key order.\<close>

definition appSyncApis :: "host_context \<Rightarrow> string list" where
  "appSyncApis c =
     (case projectMeta c of
        None \<Rightarrow> []
      | Some m \<Rightarrow>
          (case api m of
             None \<Rightarrow> []
           | Some apis \<Rightarrow> map fst (filter (\<lambda>p. service (snd p) = Some ''AppSync'') apis)))"

text \<open>The walkthrough stopped at its precondition check: the error was printed and emitted
  as telemetry, the process exited, and nothing else happened.\<close>

definition stoppedAtPrecondition :: "state \<Rightarrow> (walkthrough_result outcome \<times> state) option" where
  "stoppedAtPrecondition s =
     Some (Exited 0,
           s\<lparr>trace := trace s @ [PrintError errMessage,
                                 EmitError ResourceDoesNotExistError errMessage,
                                 ExitOnNextTick 0]\<rparr>)"

text \<open>The region question, and the client the later steps use: the one the provider plugin
  hands out, configured with the region the user answered.\<close>

definition regionQuestion :: "datasource_metadata \<Rightarrow> question" where
  "regionQuestion dm =
     \<lparr>q_type = input_type (metadata_inputs dm ! 0),
      q_name = input_key (metadata_inputs dm ! 0),
      q_message = input_question (metadata_inputs dm ! 0),
      q_choices = map Some (availableRegions dm)\<rparr>"

definition regionClient :: "env \<Rightarrow> datasource_metadata \<Rightarrow> host_context \<Rightarrow> aws_client" where
  "regionClient e dm c =
     (getConfiguredAWSClient e c ''aurora-serverless'' ''list'')
       \<lparr>config_region := Some (prompt e (regionQuestion dm))\<rparr>"

text \<open>The provider serves the pages \<open>ps\<close> and no more: each page but the last carries a
  token, the request with that token is answered by the next page, and the last page
  carries none (a token that is absent, or empty, ends the loop). \<open>listCalls\<close> are the
  requests made for them.\<close>

fun morePages :: "env \<Rightarrow> aws_client \<Rightarrow> string option \<Rightarrow> secrets_page list \<Rightarrow> bool" where
  "morePages e AWS token [] = (\<not> truthy token)"
| "morePages e AWS token (p # ps) =
     (truthy token
      \<and> listSecrets e AWS \<lparr>MaxResults = 20, ParamNextToken = token\<rparr> = Inr p
      \<and> morePages e AWS (NextToken p) ps)"

fun servesPages :: "env \<Rightarrow> aws_client \<Rightarrow> secrets_page list \<Rightarrow> bool" where
  "servesPages e AWS [] = False"
| "servesPages e AWS (p # ps) =
     (listSecrets e AWS \<lparr>MaxResults = 20, ParamNextToken = None\<rparr> = Inr p
      \<and> morePages e AWS (NextToken p) ps)"

fun listCalls :: "string option \<Rightarrow> secrets_page list \<Rightarrow> list_secrets_params list" where
  "listCalls token [] = []"
| "listCalls token (p # ps) =
     \<lparr>MaxResults = 20, ParamNextToken = token\<rparr> # listCalls (NextToken p) ps"

text \<open>One value per row, the \<^verbatim>\<open>stringValue\<close> of its first field, without the reserved
  names of the engine, in row order.\<close>

fun firstValue :: "field list \<Rightarrow> string option" where
  "firstValue [] = None"
| "firstValue (f # fs) = stringValue f"

definition databaseCandidates :: "bool \<Rightarrow> field list list \<Rightarrow> string option list" where
  "databaseCandidates pg rows =
     filter (\<lambda>v. v \<notin> Some ` set (validRecordValues pg)) (map firstValue rows)"

text \<open>The statement sent to the data API, and the state in which the candidate list is
  examined after the statement succeeded.\<close>

definition statementParams :: "bool \<Rightarrow> string \<Rightarrow> string option \<Rightarrow> data_api_params" where
  "statementParams pg clusterArn secretArn' =
     \<lparr>secretArn = secretArn', resourceArn = clusterArn,
      sql = (if pg then ''SELECT datname FROM pg_database;'' else ''show databases'')\<rparr>"

definition afterStatement :: "bool \<Rightarrow> string \<Rightarrow> string option \<Rightarrow> aws_client \<Rightarrow> state \<Rightarrow> state" where
  "afterStatement pg clusterArn secretArn' AWS s =
     s\<lparr>ctx := (ctx s)\<lparr>isPostgres := Some pg\<rparr>,
       trace := trace s @
         [DescribeDBClusters AWS (Some clusterArn),
          SpinnerStart ''Fetching Aurora Serverless cluster...'',
          ExecuteStatement AWS (statementParams pg clusterArn secretArn'),
          SpinnerSucceed ''Fetched Aurora Serverless cluster.'']\<rparr>"

text \<open>Two host contexts that differ at most in their \<^verbatim>\<open>isPostgres\<close> property.\<close>

definition sameExceptIsPostgres :: "host_context \<Rightarrow> host_context \<Rightarrow> bool" where
  "sameExceptIsPostgres c c' = (c'\<lparr>isPostgres := isPostgres c\<rparr> = c)"

text \<open>The statements sent to the data API, read off a trace.\<close>

fun statements :: "event list \<Rightarrow> data_api_params list" where
  "statements [] = []"
| "statements (ExecuteStatement AWS p # evs) = p # statements evs"
| "statements (ev # evs) = statements evs"

section \<open>Example inputs\<close>

text \<open>A project with two AppSync APIs and one with a REST API only; a provider with one
  serverless Postgres cluster, its credentials secret listed second, and the databases
  \<open>template0\<close> and \<open>orders\<close>; a user who picks the first region, the cluster and
  \<open>orders\<close>. The other environments differ from it in one collaborator each.\<close>

definition inputs0 :: "walkthrough_input list" where
  "inputs0 =
     [\<lparr>input_type = ''list'', input_key = ''region'', input_question = ''Region''\<rparr>,
      \<lparr>input_type = ''list'', input_key = ''rdsClusterIdentifier'', input_question = ''Cluster''\<rparr>,
      \<lparr>input_type = ''list'', input_key = ''rdsSecretStoreArn'', input_question = ''Secret''\<rparr>,
      \<lparr>input_type = ''list'', input_key = ''databaseName'', input_question = ''Database''\<rparr>]"

definition metadata0 :: datasource_metadata where
  "metadata0 = \<lparr>metadata_inputs = inputs0, availableRegions = [''us-east-1'', ''eu-west-1'']\<rparr>"

definition awsEast :: aws_client where
  "awsEast = \<lparr>config_region = Some ''us-east-1''\<rparr>"

definition cluster0 :: cluster where
  "cluster0 =
     \<lparr>DBClusterIdentifier = ''orders-cluster'', DBClusterArn = ''arn:cluster'',
      DbClusterResourceId = ''cluster-ABC'', Engine = ''aurora-postgresql'',
      EngineMode = ''serverless''\<rparr>"

definition otherSecret :: secret where
  "otherSecret = \<lparr>Name = ''other'', ARN = ''arn:other''\<rparr>"

definition clusterSecret :: secret where
  "clusterSecret = \<lparr>Name = ''rds-db-credentials/cluster-ABC/admin'', ARN = ''arn:secret''\<rparr>"

definition env0 :: env where
  "env0 =
     \<lparr>prompt = (\<lambda>q. if q_name q = ''region'' then ''us-east-1''
                     else if q_name q = ''rdsClusterIdentifier'' then ''orders-cluster''
                     else if q_name q = ''rdsSecretStoreArn'' then ''other''
                     else ''orders''),
      getConfiguredAWSClient = (\<lambda>c sv a. \<lparr>config_region = None\<rparr>),
      describeDBClusters = (\<lambda>AWS p. Inr [cluster0]),
      listSecrets = (\<lambda>AWS p. Inr \<lparr>SecretList = [otherSecret, clusterSecret], NextToken = None\<rparr>),
      executeStatement = (\<lambda>AWS p. Inr \<lparr>records = Some [[\<lparr>stringValue = Some ''template0''\<rparr>],
                                                           [\<lparr>stringValue = Some ''orders''\<rparr>]]\<rparr>)\<rparr>"

definition twoApis :: host_context where
  "twoApis =
     \<lparr>projectMeta = Some \<lparr>providers = None,
                          api = Some [(''blog'', \<lparr>service = Some ''AppSync''\<rparr>),
                                      (''shop'', \<lparr>service = Some ''AppSync''\<rparr>)]\<rparr>,
      isPostgres = None\<rparr>"

definition restOnly :: host_context where
  "restOnly =
     \<lparr>projectMeta = Some \<lparr>providers = None,
                          api = Some [(''rest'', \<lparr>service = Some ''API Gateway''\<rparr>)]\<rparr>,
      isPostgres = None\<rparr>"

definition start :: "host_context \<Rightarrow> state" where
  "start c = \<lparr>ctx = c, client = None, trace = []\<rparr>"

definition result0 :: walkthrough_result where
  "result0 =
     \<lparr>region = ''us-east-1'', dbClusterArn = ''arn:cluster'', secretStoreArn = Some ''arn:secret'',
      databaseName = ''orders'', resourceName = ''blog''\<rparr>"

definition trace0 :: "event list" where
  "trace0 =
     [Prompt \<lparr>q_type = ''list'', q_name = ''region'', q_message = ''Region'',
              q_choices = [Some ''us-east-1'', Some ''eu-west-1'']\<rparr>,
      GetConfiguredAWSClient ''aurora-serverless'' ''list'',
      ConfigUpdate ''us-east-1'',
      DescribeDBClusters awsEast None,
      Prompt \<lparr>q_type = ''list'', q_name = ''rdsClusterIdentifier'', q_message = ''Cluster'',
              q_choices = [Some ''orders-cluster'']\<rparr>,
      ListSecrets awsEast \<lparr>MaxResults = 20, ParamNextToken = None\<rparr>,
      DescribeDBClusters awsEast (Some ''arn:cluster''),
      SpinnerStart ''Fetching Aurora Serverless cluster...'',
      ExecuteStatement awsEast
        \<lparr>secretArn = Some ''arn:secret'', resourceArn = ''arn:cluster'',
         sql = ''SELECT datname FROM pg_database;''\<rparr>,
      SpinnerSucceed ''Fetched Aurora Serverless cluster.'',
      Prompt \<lparr>q_type = ''list'', q_name = ''databaseName'', q_message = ''Database'',
              q_choices = [Some ''orders'']\<rparr>]"

definition page20 :: secrets_page where
  "page20 = \<lparr>SecretList = replicate 20 otherSecret, NextToken = Some ''page2''\<rparr>"

definition page5 :: secrets_page where
  "page5 = \<lparr>SecretList = replicate 5 clusterSecret, NextToken = None\<rparr>"

definition envPages :: env where
  "envPages = env0
     \<lparr>listSecrets := (\<lambda>AWS p.
        if ParamNextToken p = None then Inr page20
        else if ParamNextToken p = Some ''page2'' then Inr page5
        else Inl \<lparr>code = Some ''InvalidNextTokenException'', message = ''Invalid NextToken''\<rparr>)\<rparr>"

definition appRows :: "field list list" where
  "appRows = [[\<lparr>stringValue = Some ''rdsadmin''\<rparr>], [\<lparr>stringValue = Some ''postgres''\<rparr>],
              [\<lparr>stringValue = Some ''app_db''\<rparr>]]"

definition envApp :: env where
  "envApp = env0
     \<lparr>prompt := (\<lambda>q. ''app_db''),
      executeStatement := (\<lambda>AWS p. Inr \<lparr>records = Some appRows\<rparr>)\<rparr>"

definition shopRows :: "field list list" where
  "shopRows = [[\<lparr>stringValue = Some ''mysql''\<rparr>], [\<lparr>stringValue = Some ''shop''\<rparr>]]"

definition envMysql :: env where
  "envMysql = env0
     \<lparr>prompt := (\<lambda>q. ''shop''),
      describeDBClusters := (\<lambda>AWS p. Inr [cluster0\<lparr>Engine := ''aurora-mysql''\<rparr>]),
      executeStatement := (\<lambda>AWS p. Inr \<lparr>records = Some shopRows\<rparr>)\<rparr>"

definition accessDenied :: js_error where
  "accessDenied = \<lparr>code = Some ''BadRequestException'', message = ''Access denied for user admin''\<rparr>"

definition envDenied :: env where
  "envDenied = env0\<lparr>executeStatement := (\<lambda>AWS p. Inl accessDenied)\<rparr>"

definition endpointOff :: js_error where
  "endpointOff = \<lparr>code = Some ''BadRequestException'', message = ''HttpEndpoint is not enabled''\<rparr>"

definition envOff :: env where
  "envOff = env0\<lparr>executeStatement := (\<lambda>AWS p. Inl endpointOff)\<rparr>"

definition envProvisioned :: env where
  "envProvisioned = env0
     \<lparr>describeDBClusters := (\<lambda>AWS p. Inr [cluster0\<lparr>EngineMode := ''provisioned''\<rparr>])\<rparr>"

definition project0 :: project where
  "project0 =
     \<lparr>amplifyMeta = Some \<lparr>providers = Some \<lparr>awscloudformation = Some \<lparr>Region = Some ''us-east-1''\<rparr>\<rparr>,
                          api = None\<rparr>\<rparr>"

section \<open>Properties of the steps\<close>

lemmas walkthrough_defs =
  serviceWalkthrough_def andThenP_def total_def requireAppSyncApi_def promptWalkthroughQuestion_def
  getAwsClient_def configUpdate_def selectCluster_def getSecretStoreArn_def listAllSecrets_def
  listMoreSecrets.simps chooseSecret_def selectDatabase_def fetchDatabases_def catchBlock_def
  setIsPostgres_def validRecordValues_def reportAndExit_def exitOnNextTick_def emit_def
  return_def throw_def andThen_def Let_def

lemmas example_defs =
  inputs0_def metadata0_def awsEast_def cluster0_def otherSecret_def clusterSecret_def env0_def
  twoApis_def restOnly_def start_def result0_def

lemmas all_example_defs = example_defs trace0_def page20_def page5_def envPages_def appRows_def
  envApp_def shopRows_def envMysql_def accessDenied_def envDenied_def endpointOff_def envOff_def
  envProvisioned_def

lemma startsWith_iff: "startsWith s p \<longleftrightarrow> (\<exists>t. s = p @ t)"
  by (induction s p rule: startsWith.induct) auto

lemma includes_str_iff: "includes_str s p \<longleftrightarrow> (\<exists>a b. s = a @ p @ b)"
proof (induction s)
  case Nil
  then show ?case by (cases p) (auto simp: startsWith_iff)
next
  case (Cons x s)
  show ?case
  proof
    assume "includes_str (x # s) p"
    then consider "startsWith (x # s) p" | "includes_str s p" by auto
    then show "\<exists>a b. x # s = a @ p @ b"
    proof cases
      case 1
      then obtain t where "x # s = p @ t" by (auto simp: startsWith_iff)
      then have "x # s = [] @ p @ t" by simp
      then show ?thesis by blast
    next
      case 2
      then obtain a b where "s = a @ p @ b" using Cons.IH by auto
      then have "x # s = (x # a) @ p @ b" by simp
      then show ?thesis by blast
    qed
  next
    assume "\<exists>a b. x # s = a @ p @ b"
    then obtain a b where ab: "x # s = a @ p @ b" by auto
    show "includes_str (x # s) p"
    proof (cases a)
      case Nil
      with ab have "startsWith (x # s) p" by (simp add: startsWith_iff)
      then show ?thesis by simp
    next
      case (Cons y a')
      with ab have "s = a' @ p @ b" by simp
      then show ?thesis using Cons.IH by auto
    qed
  qed
qed

lemma split_first: "\<exists>ws. split s c = takeWhile (\<lambda>x. x \<noteq> c) s # ws"
  by (induction s) auto

lemma shortId_eq: "shortId uuid = Some (takeWhile (\<lambda>x. x \<noteq> CHR ''-'') uuid)"
  using split_first [of uuid "CHR ''-''"] by (auto simp: shortId_def)

lemma ctx_emit: "ctx (emit ev s) = ctx s"
  by (simp add: emit_def)

lemma trace_emit: "trace (emit ev s) = trace s @ [ev]"
  by (simp add: emit_def)

lemma reportAndExit_eq:
  "reportAndExit k m s =
     (Exited 0, s\<lparr>trace := trace s @ [PrintError m, EmitError k m, ExitOnNextTick 0]\<rparr>)"
  by (simp add: reportAndExit_def exitOnNextTick_def emit_def)

lemma reportAndExit_ctx: "ctx (snd (reportAndExit k m s)) = ctx s"
  by (simp add: reportAndExit_eq)

lemma promptWalkthroughQuestion_ctx:
  "ctx (snd (promptWalkthroughQuestion e inputs n choices s)) = ctx s"
  by (simp add: promptWalkthroughQuestion_def throw_def emit_def Let_def)

lemma andThen_ctx:
  assumes "\<And>s. ctx (snd (m s)) = ctx s" and "\<And>a s. ctx (snd (f a s)) = ctx s"
  shows "ctx (snd (andThen m f s)) = ctx s"
proof (cases "m s")
  case (Pair out s1)
  with assms(1) [of s] have "ctx s1 = ctx s" by simp
  with Pair assms(2) show ?thesis by (cases out) (simp_all add: andThen_def)
qed

subsection \<open>The precondition check\<close>

lemma findAppSyncApi_filter:
  "findAppSyncApi apis =
     (case map fst (filter (\<lambda>p. service (snd p) = Some ''AppSync'') apis) of
        [] \<Rightarrow> None | name # rest \<Rightarrow> Some name)"
  by (induction apis rule: findAppSyncApi.induct) auto

lemma requireAppSyncApi_eq:
  "requireAppSyncApi s =
     (case appSyncApis (ctx s) of
        [] \<Rightarrow> reportAndExit ResourceDoesNotExistError errMessage s
      | name # rest \<Rightarrow>
          if name = [] then reportAndExit ResourceDoesNotExistError errMessage s
          else (Returned name, s))"
  by (auto simp: requireAppSyncApi_def appSyncApis_def findAppSyncApi_filter return_def
           split: option.splits list.splits)

lemma requireAppSyncApi_ctx: "ctx (snd (requireAppSyncApi s)) = ctx s"
  by (simp add: requireAppSyncApi_eq reportAndExit_ctx split: list.splits)

lemma andThenP_Returned:
  "andThenP m f s = Some (Returned r, s') \<Longrightarrow>
     \<exists>a s1. m s = Some (Returned a, s1) \<and> f a s1 = Some (Returned r, s')"
  by (auto simp: andThenP_def split: option.splits outcome.splits prod.splits)

lemma serviceWalkthrough_returned_name:
  assumes "serviceWalkthrough e f dm s = Some (Returned r, s')"
  shows "\<exists>rest. appSyncApis (ctx s) = resourceName r # rest"
proof -
  from assms obtain name s1 where
    req: "requireAppSyncApi s = (Returned name, s1)" and "resourceName r = name"
    unfolding serviceWalkthrough_def
    by (auto dest!: andThenP_Returned simp: total_def return_def)
  note this(2)
  moreover from req have "\<exists>rest. appSyncApis (ctx s) = name # rest"
    by (auto simp: requireAppSyncApi_eq reportAndExit_eq split: list.splits if_splits)
  ultimately show ?thesis by simp
qed

lemma serviceWalkthrough_none_tagged:
  "appSyncApis (ctx s) = [] \<Longrightarrow> serviceWalkthrough e f dm s = stoppedAtPrecondition s"
  by (simp add: serviceWalkthrough_def andThenP_def total_def requireAppSyncApi_eq
        reportAndExit_eq stoppedAtPrecondition_def)

subsection \<open>Cluster selection\<close>

lemma serverlessClusters_none:
  "\<forall>c\<in>set rawClusters. EngineMode c \<noteq> ''serverless'' \<Longrightarrow>
     serverlessClusters rawClusters clusters = clusters"
  by (induction rawClusters arbitrary: clusters) auto

lemma selectCluster_none:
  assumes "describeDBClusters e AWS None = Inr rawClusters"
    and "\<forall>c\<in>set rawClusters. EngineMode c \<noteq> ''serverless''"
  shows "selectCluster e inputs AWS s =
     (Exited 0,
      s\<lparr>trace := trace s @
          [DescribeDBClusters AWS None,
           PrintError ''No properly configured Aurora Serverless clusters found.'',
           EmitError ResourceDoesNotExistError
             ''No properly configured Aurora Serverless clusters found.'',
           ExitOnNextTick 0]\<rparr>)"
  using assms
  by (simp add: selectCluster_def serverlessClusters_none reportAndExit_eq emit_def)

lemma selectCluster_ctx: "ctx (snd (selectCluster e inputs AWS s)) = ctx s"
proof (cases "describeDBClusters e AWS None")
  case (Inl err)
  then show ?thesis by (simp add: selectCluster_def emit_def)
next
  case (Inr rawClusters)
  have pick: "ctx (snd ((case map_of (serverlessClusters rawClusters []) a of
                 None \<Rightarrow> throw (TypeError ''selectedCluster is undefined'')
               | Some selectedCluster \<Rightarrow>
                   return (DBClusterArn selectedCluster, DbClusterResourceId selectedCluster)) t))
              = ctx t" for a t
    by (simp add: throw_def return_def split: option.splits)
  show ?thesis
    using Inr
    by (simp add: selectCluster_def Let_def reportAndExit_ctx ctx_emit
          andThen_ctx [OF promptWalkthroughQuestion_ctx pick])
qed

subsection \<open>Secret listing and selection\<close>

text \<open>The pagination loop is a least fixed point, so what holds of every result it returns
  is shown by its fixed-point induction rule.\<close>

lemma listMoreSecrets_pages:
  "morePages e AWS token ps \<Longrightarrow>
     listMoreSecrets e AWS rawSecrets token s =
       Some (Returned (rawSecrets @ concat (map SecretList ps)),
             s\<lparr>trace := trace s @ map (ListSecrets AWS) (listCalls token ps)\<rparr>)"
proof (induction ps arbitrary: token rawSecrets s)
  case Nil
  then show ?case by (subst listMoreSecrets.simps) simp
next
  case (Cons p ps)
  then show ?case by (subst listMoreSecrets.simps) (simp add: emit_def)
qed

lemma listAllSecrets_pages:
  assumes "servesPages e AWS ps"
  shows "listAllSecrets e AWS s =
       Some (Returned (concat (map SecretList ps)),
             s\<lparr>trace := trace s @ map (ListSecrets AWS) (listCalls None ps)\<rparr>)"
proof (cases ps)
  case Nil
  with assms show ?thesis by simp
next
  case (Cons p ps')
  with assms have first: "listSecrets e AWS \<lparr>MaxResults = 20, ParamNextToken = None\<rparr> = Inr p"
    and more: "morePages e AWS (NextToken p) ps'"
    by simp_all
  show ?thesis
    using first Cons
    by (simp add: listAllSecrets_def listMoreSecrets_pages [OF more] emit_def)
qed

lemma listMoreSecrets_frame:
  assumes "listMoreSecrets e AWS rawSecrets token s = Some y"
  shows "ctx (snd y) = ctx s \<and> (\<exists>calls. trace (snd y) = trace s @ map (ListSecrets AWS) calls)"
  using assms
proof (induct rule: listMoreSecrets.raw_induct [rotated 1, consumes 1, case_names step])
  case (step f e AWS rawSecrets token s y)
  show ?case
  proof (cases "truthy token")
    case False
    with step(2) have "snd y = s" by auto
    then show ?thesis by simp
  next
    case True
    show ?thesis
    proof (cases "listSecrets e AWS \<lparr>MaxResults = 20, ParamNextToken = token\<rparr>")
      case (Inl err)
      with True step(2) have "snd y = emit (ListSecrets AWS \<lparr>MaxResults = 20, ParamNextToken = token\<rparr>) s"
        by auto
      then have "ctx (snd y) = ctx s"
        "trace (snd y) = trace s @ map (ListSecrets AWS) [\<lparr>MaxResults = 20, ParamNextToken = token\<rparr>]"
        by (simp_all add: emit_def)
      then show ?thesis by blast
    next
      case (Inr page)
      with True step(2) have
        "f e AWS (rawSecrets @ SecretList page) (NextToken page)
           (emit (ListSecrets AWS \<lparr>MaxResults = 20, ParamNextToken = token\<rparr>) s) = Some y"
        by simp
      from step(1) [OF this] obtain calls where
        "ctx (snd y) = ctx s"
        "trace (snd y) = trace s @ map (ListSecrets AWS) (\<lparr>MaxResults = 20, ParamNextToken = token\<rparr> # calls)"
        by (auto simp: emit_def)
      then show ?thesis by blast
    qed
  qed
qed

lemma listAllSecrets_frame:
  assumes "listAllSecrets e AWS s = Some (out, s')"
  shows "ctx s' = ctx s \<and> (\<exists>calls. trace s' = trace s @ map (ListSecrets AWS) calls)"
proof (cases "listSecrets e AWS \<lparr>MaxResults = 20, ParamNextToken = None\<rparr>")
  case (Inl err)
  with assms have "s' = emit (ListSecrets AWS \<lparr>MaxResults = 20, ParamNextToken = None\<rparr>) s"
    by (simp add: listAllSecrets_def)
  then have "ctx s' = ctx s" "trace s' = trace s @ map (ListSecrets AWS) [\<lparr>MaxResults = 20, ParamNextToken = None\<rparr>]"
    by (simp_all add: emit_def)
  then show ?thesis by blast
next
  case (Inr page)
  with assms have "listMoreSecrets e AWS (SecretList page) (NextToken page)
      (emit (ListSecrets AWS \<lparr>MaxResults = 20, ParamNextToken = None\<rparr>) s) = Some (out, s')"
    by (simp add: listAllSecrets_def)
  from listMoreSecrets_frame [OF this] obtain calls where
    "ctx s' = ctx s"
    "trace s' = trace s @ map (ListSecrets AWS) (\<lparr>MaxResults = 20, ParamNextToken = None\<rparr> # calls)"
    by (auto simp: emit_def)
  then show ?thesis by blast
qed

lemma scanSecrets_first:
  "\<forall>x\<in>set before. \<not> startsWith (Name x) pre \<Longrightarrow> startsWith (Name r) pre \<Longrightarrow>
     fst (scanSecrets pre (before @ r # rest) secrets) = Some (ARN r)"
  by (induction before arbitrary: secrets) auto

lemma chooseSecret_ctx: "ctx (snd (chooseSecret e inputs rid rawSecrets s)) = ctx s"
proof (cases "scanSecrets (''rds-db-credentials/'' @ rid) rawSecrets []")
  case (Pair selectedSecretArn secrets)
  have ret: "ctx (snd (return (map_of secrets a) t)) = ctx t" for a t
    by (simp add: return_def)
  show ?thesis
    using Pair
    by (simp add: chooseSecret_def reportAndExit_ctx return_def
          andThen_ctx [OF promptWalkthroughQuestion_ctx ret])
qed

lemma getSecretStoreArn_ctx:
  assumes "getSecretStoreArn e inputs rid AWS s = Some y"
  shows "ctx (snd y) = ctx s"
proof -
  from assms obtain out s1 where l: "listAllSecrets e AWS s = Some (out, s1)"
    by (auto simp: getSecretStoreArn_def andThenP_def split: option.splits)
  then have c1: "ctx s1 = ctx s" using listAllSecrets_frame by blast
  show ?thesis
  proof (cases out)
    case (Returned rawSecrets)
    with assms l have "y = chooseSecret e inputs rid rawSecrets s1"
      by (simp add: getSecretStoreArn_def andThenP_def total_def)
    then show ?thesis using c1 by (simp add: chooseSecret_ctx)
  next
    case (Exited n)
    with assms l have "snd y = s1" by (auto simp: getSecretStoreArn_def andThenP_def)
    then show ?thesis using c1 by simp
  next
    case (Threw err)
    with assms l have "snd y = s1" by (auto simp: getSecretStoreArn_def andThenP_def)
    then show ?thesis using c1 by simp
  qed
qed

subsection \<open>Database selection\<close>

lemma collectDatabases_rows:
  "\<forall>row\<in>set rows. row \<noteq> [] \<Longrightarrow>
     collectDatabases valid rows databaseList =
       (databaseList @ filter (\<lambda>v. v \<notin> Some ` set valid) (map firstValue rows), None)"
proof (induction rows arbitrary: databaseList)
  case Nil
  then show ?case by simp
next
  case (Cons row rows)
  then obtain f fs where "row = f # fs" by (cases row) auto
  with Cons show ?case by simp
qed

lemma fetchDatabases_ctx: "ctx (snd (fetchDatabases e AWS params pg s)) = ctx s"
  by (simp add: fetchDatabases_def catchBlock_def emit_def
           split: sum.splits option.splits prod.splits)

lemma selectDatabase_unfold:
  assumes "describeDBClusters e AWS (Some clusterArn) = Inr DBClusters"
    and "pg = list_ex (\<lambda>cluster. includes_str (Engine cluster) ''postgres'') DBClusters"
  shows "selectDatabase e inputs clusterArn sa AWS s =
     (case fetchDatabases e AWS (statementParams pg clusterArn sa) pg
             (s\<lparr>ctx := (ctx s)\<lparr>isPostgres := Some pg\<rparr>,
                trace := trace s @ [DescribeDBClusters AWS (Some clusterArn),
                                    SpinnerStart ''Fetching Aurora Serverless cluster...'']\<rparr>) of
        (databaseList, s2) \<Rightarrow>
          if length databaseList > 0 then promptWalkthroughQuestion e inputs 3 databaseList s2
          else reportAndExit ResourceDoesNotExistError
                 ''No properly configured databases found.'' s2)"
  using assms
  by (simp add: selectDatabase_def setIsPostgres_def emit_def statementParams_def Let_def)

lemma selectDatabase_rows:
  assumes "describeDBClusters e AWS (Some clusterArn) = Inr DBClusters"
    and "pg = list_ex (\<lambda>cluster. includes_str (Engine cluster) ''postgres'') DBClusters"
    and "executeStatement e AWS (statementParams pg clusterArn sa) = Inr res"
    and "records res = Some rows"
    and "\<forall>row\<in>set rows. row \<noteq> []"
  shows "selectDatabase e inputs clusterArn sa AWS s =
     (if databaseCandidates pg rows \<noteq> [] then
        promptWalkthroughQuestion e inputs 3 (databaseCandidates pg rows)
          (afterStatement pg clusterArn sa AWS s)
      else
        reportAndExit ResourceDoesNotExistError ''No properly configured databases found.''
          (afterStatement pg clusterArn sa AWS s))"
  using assms(3-5)
  by (simp add: selectDatabase_unfold [OF assms(1,2)] fetchDatabases_def collectDatabases_rows
        databaseCandidates_def afterStatement_def emit_def)

lemma selectDatabase_failed:
  assumes "describeDBClusters e AWS (Some clusterArn) = Inr DBClusters"
    and "pg = list_ex (\<lambda>cluster. includes_str (Engine cluster) ''postgres'') DBClusters"
    and "executeStatement e AWS (statementParams pg clusterArn sa) = Inl err"
  shows "selectDatabase e inputs clusterArn sa AWS s =
     (Exited 0,
      s\<lparr>ctx := (ctx s)\<lparr>isPostgres := Some pg\<rparr>,
        trace := trace s @
          [DescribeDBClusters AWS (Some clusterArn),
           SpinnerStart ''Fetching Aurora Serverless cluster...'',
           ExecuteStatement AWS (statementParams pg clusterArn sa),
           SpinnerFail (message err)]
          @ (if code err = Some ''BadRequestException''
                \<and> includes_str (message err) ''Access denied for user''
             then [PrintError (msg sa)] else [])
          @ [PrintError ''No properly configured databases found.'',
             EmitError ResourceDoesNotExistError ''No properly configured databases found.'',
             ExitOnNextTick 0]\<rparr>)"
  using assms(3)
  by (simp add: selectDatabase_unfold [OF assms(1,2)] fetchDatabases_def catchBlock_def
        reportAndExit_eq emit_def statementParams_def)

lemma selectDatabase_ctx:
  "ctx (snd (selectDatabase e inputs clusterArn sa AWS s)) =
     (case describeDBClusters e AWS (Some clusterArn) of
        Inl err \<Rightarrow> ctx s
      | Inr DBClusters \<Rightarrow>
          (ctx s)\<lparr>isPostgres :=
            Some (list_ex (\<lambda>cluster. includes_str (Engine cluster) ''postgres'') DBClusters)\<rparr>)"
proof (cases "describeDBClusters e AWS (Some clusterArn)")
  case (Inl err)
  then show ?thesis by (simp add: selectDatabase_def emit_def)
next
  case (Inr DBClusters)
  obtain databaseList s2 where f:
    "fetchDatabases e AWS
       (statementParams (list_ex (\<lambda>cluster. includes_str (Engine cluster) ''postgres'') DBClusters)
          clusterArn sa)
       (list_ex (\<lambda>cluster. includes_str (Engine cluster) ''postgres'') DBClusters)
       (s\<lparr>ctx := (ctx s)\<lparr>isPostgres :=
              Some (list_ex (\<lambda>cluster. includes_str (Engine cluster) ''postgres'') DBClusters)\<rparr>,
          trace := trace s @ [DescribeDBClusters AWS (Some clusterArn),
                              SpinnerStart ''Fetching Aurora Serverless cluster...'']\<rparr>)
     = (databaseList, s2)"
    by (cases "fetchDatabases e AWS
       (statementParams (list_ex (\<lambda>cluster. includes_str (Engine cluster) ''postgres'') DBClusters)
          clusterArn sa)
       (list_ex (\<lambda>cluster. includes_str (Engine cluster) ''postgres'') DBClusters)
       (s\<lparr>ctx := (ctx s)\<lparr>isPostgres :=
              Some (list_ex (\<lambda>cluster. includes_str (Engine cluster) ''postgres'') DBClusters)\<rparr>,
          trace := trace s @ [DescribeDBClusters AWS (Some clusterArn),
                              SpinnerStart ''Fetching Aurora Serverless cluster...'']\<rparr>)") auto
  have "ctx (snd (databaseList, s2)) = (ctx s)\<lparr>isPostgres :=
              Some (list_ex (\<lambda>cluster. includes_str (Engine cluster) ''postgres'') DBClusters)\<rparr>"
    unfolding f [symmetric] fetchDatabases_ctx by simp
  then have "ctx s2 = (ctx s)\<lparr>isPostgres :=
              Some (list_ex (\<lambda>cluster. includes_str (Engine cluster) ''postgres'') DBClusters)\<rparr>"
    by simp
  then show ?thesis
    using Inr f
    by (simp add: selectDatabase_unfold [OF Inr refl] promptWalkthroughQuestion_ctx
          reportAndExit_ctx)
qed

lemma statements_append: "statements (xs @ ys) = statements xs @ statements ys"
  by (induction xs rule: statements.induct) simp_all

lemma fetchDatabases_statements:
  "statements (trace (snd (fetchDatabases e AWS params pg s))) = statements (trace s) @ [params]"
  by (simp add: fetchDatabases_def catchBlock_def emit_def statements_append
           split: sum.splits option.splits prod.splits)

lemma promptWalkthroughQuestion_statements:
  "statements (trace (snd (promptWalkthroughQuestion e inputs n choices s))) = statements (trace s)"
  by (simp add: promptWalkthroughQuestion_def throw_def emit_def Let_def statements_append)

lemma selectDatabase_statements:
  assumes "describeDBClusters e AWS (Some clusterArn) = Inr DBClusters"
    and "pg = list_ex (\<lambda>cluster. includes_str (Engine cluster) ''postgres'') DBClusters"
  shows "statements (trace (snd (selectDatabase e inputs clusterArn sa AWS s))) =
           statements (trace s) @ [statementParams pg clusterArn sa]"
proof -
  let ?s1 = "s\<lparr>ctx := (ctx s)\<lparr>isPostgres := Some pg\<rparr>,
                trace := trace s @ [DescribeDBClusters AWS (Some clusterArn),
                                    SpinnerStart ''Fetching Aurora Serverless cluster...'']\<rparr>"
  obtain databaseList s2 where f:
    "fetchDatabases e AWS (statementParams pg clusterArn sa) pg ?s1 = (databaseList, s2)"
    by (cases "fetchDatabases e AWS (statementParams pg clusterArn sa) pg ?s1") auto
  have "statements (trace (snd (databaseList, s2))) =
          statements (trace ?s1) @ [statementParams pg clusterArn sa]"
    unfolding f [symmetric] by (rule fetchDatabases_statements)
  then have "statements (trace s2) = statements (trace s) @ [statementParams pg clusterArn sa]"
    by (simp add: statements_append)
  then show ?thesis
    using f
    by (simp add: selectDatabase_unfold [OF assms] promptWalkthroughQuestion_statements
          reportAndExit_eq statements_append)
qed

subsection \<open>What a run changes in the host context and in the client\<close>

lemma same_refl: "sameExceptIsPostgres c c"
  by (simp add: sameExceptIsPostgres_def)

lemma same_trans:
  "sameExceptIsPostgres a b \<Longrightarrow> sameExceptIsPostgres b c \<Longrightarrow> sameExceptIsPostgres a c"
  unfolding sameExceptIsPostgres_def
  by (cases a, cases b, cases c) simp

lemma andThenP_frame:
  assumes "andThenP m f s = Some y"
    and "\<And>s y. m s = Some y \<Longrightarrow> sameExceptIsPostgres (ctx s) (ctx (snd y))"
    and "\<And>a s y. f a s = Some y \<Longrightarrow> sameExceptIsPostgres (ctx s) (ctx (snd y))"
  shows "sameExceptIsPostgres (ctx s) (ctx (snd y))"
proof (cases "m s")
  case None
  with assms(1) show ?thesis by (simp add: andThenP_def)
next
  case (Some z)
  obtain out s1 where z: "z = (out, s1)" by (cases z)
  from assms(2) [OF Some] z have 1: "sameExceptIsPostgres (ctx s) (ctx s1)" by simp
  show ?thesis
  proof (cases out)
    case (Returned a)
    with assms(1) Some z have "f a s1 = Some y" by (simp add: andThenP_def)
    from assms(3) [OF this] 1 show ?thesis by (rule same_trans [rotated])
  next
    case (Exited n)
    with assms(1) Some z have "snd y = s1" by (auto simp: andThenP_def)
    with 1 show ?thesis by simp
  next
    case (Threw err)
    with assms(1) Some z have "snd y = s1" by (auto simp: andThenP_def)
    with 1 show ?thesis by simp
  qed
qed

lemma total_frame:
  assumes "total m s = Some y" and "\<And>s. ctx (snd (m s)) = ctx s"
  shows "sameExceptIsPostgres (ctx s) (ctx (snd y))"
  using assms(1) assms(2) [of s] by (auto simp: total_def same_refl)

lemma selectDatabase_frame:
  "sameExceptIsPostgres (ctx s) (ctx (snd (selectDatabase e inputs clusterArn sa AWS s)))"
  by (cases "ctx s")
     (simp add: selectDatabase_ctx sameExceptIsPostgres_def split: sum.splits)

lemma serviceWalkthrough_frame:
  assumes "serviceWalkthrough e f dm s = Some y"
  shows "sameExceptIsPostgres (ctx s) (ctx (snd y))"
  using assms unfolding serviceWalkthrough_def
  apply (rule andThenP_frame)
   apply (erule total_frame, rule requireAppSyncApi_ctx)
  apply (erule andThenP_frame)
   apply (erule total_frame, rule promptWalkthroughQuestion_ctx)
  apply (erule andThenP_frame)
   apply (erule total_frame, simp add: getAwsClient_def emit_def)
  apply (erule andThenP_frame)
   apply (erule total_frame, simp add: configUpdate_def emit_def)
  apply (erule andThenP_frame)
   apply (erule total_frame, rule selectCluster_ctx)
  apply (simp only: split_paired_all case_prod_conv)
  apply (erule andThenP_frame)
   apply (drule getSecretStoreArn_ctx, simp add: same_refl)
  apply (erule andThenP_frame)
   apply (clarsimp simp: total_def selectDatabase_frame)
  apply (clarsimp simp: total_def return_def same_refl)
  done

text \<open>The client object: which steps write it.\<close>

lemma reportAndExit_client: "client (snd (reportAndExit k m s)) = client s"
  by (simp add: reportAndExit_eq)

lemma promptWalkthroughQuestion_client:
  "client (snd (promptWalkthroughQuestion e inputs n choices s)) = client s"
  by (simp add: promptWalkthroughQuestion_def throw_def emit_def Let_def)

lemma requireAppSyncApi_client: "client (snd (requireAppSyncApi s)) = client s"
  by (simp add: requireAppSyncApi_eq reportAndExit_client split: list.splits)

lemma andThen_client:
  assumes "\<And>s. client (snd (m s)) = client s" and "\<And>a s. client (snd (f a s)) = client s"
  shows "client (snd (andThen m f s)) = client s"
proof (cases "m s")
  case (Pair out s1)
  with assms(1) [of s] have "client s1 = client s" by simp
  with Pair assms(2) show ?thesis by (cases out) (simp_all add: andThen_def)
qed

lemma selectCluster_client: "client (snd (selectCluster e inputs AWS s)) = client s"
proof (cases "describeDBClusters e AWS None")
  case (Inl err)
  then show ?thesis by (simp add: selectCluster_def emit_def)
next
  case (Inr rawClusters)
  have pick: "client (snd ((case map_of (serverlessClusters rawClusters []) a of
                 None \<Rightarrow> throw (TypeError ''selectedCluster is undefined'')
               | Some selectedCluster \<Rightarrow>
                   return (DBClusterArn selectedCluster, DbClusterResourceId selectedCluster)) t))
              = client t" for a t
    by (simp add: throw_def return_def split: option.splits)
  show ?thesis
    using Inr
    by (simp add: selectCluster_def Let_def reportAndExit_client emit_def
          andThen_client [OF promptWalkthroughQuestion_client pick])
qed

lemma listMoreSecrets_client:
  assumes "listMoreSecrets e AWS rawSecrets token s = Some y"
  shows "client (snd y) = client s"
  using assms
proof (induct rule: listMoreSecrets.raw_induct [rotated 1, consumes 1, case_names step])
  case (step f e AWS rawSecrets token s y)
  show ?case
  proof (cases "truthy token")
    case False
    with step(2) have "snd y = s" by auto
    then show ?thesis by simp
  next
    case True
    show ?thesis
    proof (cases "listSecrets e AWS \<lparr>MaxResults = 20, ParamNextToken = token\<rparr>")
      case (Inl err)
      with True step(2) have
        "snd y = emit (ListSecrets AWS \<lparr>MaxResults = 20, ParamNextToken = token\<rparr>) s"
        by auto
      then show ?thesis by (simp add: emit_def)
    next
      case (Inr page)
      with True step(2) have
        "f e AWS (rawSecrets @ SecretList page) (NextToken page)
           (emit (ListSecrets AWS \<lparr>MaxResults = 20, ParamNextToken = token\<rparr>) s) = Some y"
        by simp
      from step(1) [OF this] show ?thesis by (simp add: emit_def)
    qed
  qed
qed

lemma listAllSecrets_client:
  assumes "listAllSecrets e AWS s = Some y"
  shows "client (snd y) = client s"
proof (cases "listSecrets e AWS \<lparr>MaxResults = 20, ParamNextToken = None\<rparr>")
  case (Inl err)
  with assms have "snd y = emit (ListSecrets AWS \<lparr>MaxResults = 20, ParamNextToken = None\<rparr>) s"
    by (auto simp: listAllSecrets_def)
  then show ?thesis by (simp add: emit_def)
next
  case (Inr page)
  with assms have "listMoreSecrets e AWS (SecretList page) (NextToken page)
      (emit (ListSecrets AWS \<lparr>MaxResults = 20, ParamNextToken = None\<rparr>) s) = Some y"
    by (simp add: listAllSecrets_def)
  from listMoreSecrets_client [OF this] show ?thesis by (simp add: emit_def)
qed

lemma chooseSecret_client: "client (snd (chooseSecret e inputs rid rawSecrets s)) = client s"
proof (cases "scanSecrets (''rds-db-credentials/'' @ rid) rawSecrets []")
  case (Pair selectedSecretArn secrets)
  have ret: "client (snd (return (map_of secrets a) t)) = client t" for a t
    by (simp add: return_def)
  show ?thesis
    using Pair
    by (simp add: chooseSecret_def reportAndExit_client return_def
          andThen_client [OF promptWalkthroughQuestion_client ret])
qed

lemma getSecretStoreArn_client:
  assumes "getSecretStoreArn e inputs rid AWS s = Some y"
  shows "client (snd y) = client s"
proof -
  from assms obtain out s1 where l: "listAllSecrets e AWS s = Some (out, s1)"
    by (auto simp: getSecretStoreArn_def andThenP_def split: option.splits)
  from listAllSecrets_client [OF l] have c1: "client s1 = client s" by simp
  show ?thesis
  proof (cases out)
    case (Returned rawSecrets)
    with assms l have "y = chooseSecret e inputs rid rawSecrets s1"
      by (simp add: getSecretStoreArn_def andThenP_def total_def)
    then show ?thesis using c1 by (simp add: chooseSecret_client)
  next
    case (Exited n)
    with assms l have "snd y = s1" by (auto simp: getSecretStoreArn_def andThenP_def)
    then show ?thesis using c1 by simp
  next
    case (Threw err)
    with assms l have "snd y = s1" by (auto simp: getSecretStoreArn_def andThenP_def)
    then show ?thesis using c1 by simp
  qed
qed

lemma fetchDatabases_client: "client (snd (fetchDatabases e AWS params pg s)) = client s"
  by (simp add: fetchDatabases_def catchBlock_def emit_def
           split: sum.splits option.splits prod.splits)

lemma selectDatabase_client:
  "client (snd (selectDatabase e inputs clusterArn sa AWS s)) = client s"
proof (cases "describeDBClusters e AWS (Some clusterArn)")
  case (Inl err)
  then show ?thesis by (simp add: selectDatabase_def emit_def)
next
  case (Inr DBClusters)
  define pg where "pg = list_ex (\<lambda>cluster. includes_str (Engine cluster) ''postgres'') DBClusters"
  define s1 where "s1 = s\<lparr>ctx := (ctx s)\<lparr>isPostgres := Some pg\<rparr>,
          trace := trace s @ [DescribeDBClusters AWS (Some clusterArn),
                              SpinnerStart ''Fetching Aurora Serverless cluster...'']\<rparr>"
  obtain databaseList s2 where f:
    "fetchDatabases e AWS (statementParams pg clusterArn sa) pg s1 = (databaseList, s2)"
    by (cases "fetchDatabases e AWS (statementParams pg clusterArn sa) pg s1") auto
  have "client (snd (databaseList, s2)) = client s1"
    unfolding f [symmetric] by (rule fetchDatabases_client)
  then have "client s2 = client s" by (simp add: s1_def)
  then show ?thesis
    using f
    by (simp add: selectDatabase_unfold [OF Inr pg_def] s1_def [symmetric]
          promptWalkthroughQuestion_client reportAndExit_client)
qed

lemma andThenP_SomeE:
  assumes "andThenP m f s = Some y"
  obtains (cont) a s1 where "m s = Some (Returned a, s1)" and "f a s1 = Some y"
        | (stop) out s1 where "m s = Some (out, s1)" and "snd y = s1"
                          and "\<forall>a. out \<noteq> Returned a"
proof (cases "m s")
  case None
  with assms show ?thesis by (simp add: andThenP_def)
next
  case (Some z)
  obtain out s1 where z: "z = (out, s1)" by (cases z)
  show ?thesis
  proof (cases out)
    case (Returned a)
    with assms Some z have "f a s1 = Some y" by (simp add: andThenP_def)
    with Some z Returned show ?thesis by (intro cont) simp_all
  next
    case (Exited n)
    with assms Some z have y: "snd y = s1" by (auto simp: andThenP_def)
    from Some z have m: "m s = Some (out, s1)" by simp
    from Exited have "\<forall>a. out \<noteq> Returned a" by simp
    with m y show ?thesis by (rule stop)
  next
    case (Threw err)
    with assms Some z have y: "snd y = s1" by (auto simp: andThenP_def)
    from Some z have m: "m s = Some (out, s1)" by simp
    from Threw have "\<forall>a. out \<noteq> Returned a" by simp
    with m y show ?thesis by (rule stop)
  qed
qed

lemma andThenP_client:
  assumes "andThenP m f s = Some y"
    and "\<And>s y. m s = Some y \<Longrightarrow> client (snd y) = client s"
    and "\<And>a s y. f a s = Some y \<Longrightarrow> client (snd y) = client s"
  shows "client (snd y) = client s"
  using assms(1)
proof (cases rule: andThenP_SomeE)
  case (cont a s1)
  from assms(2) [OF cont(1)] assms(3) [OF cont(2)] show ?thesis by simp
next
  case (stop out s1)
  from assms(2) [OF stop(1)] stop(2) show ?thesis by simp
qed

lemma total_client:
  assumes "total m s = Some y" and "\<And>s. client (snd (m s)) = client s"
  shows "client (snd y) = client s"
  using assms(1) assms(2) [of s] by (auto simp: total_def)

lemma regionAnswer:
  assumes "promptWalkthroughQuestion e (metadata_inputs dm) 0 (map Some (availableRegions dm)) s
             = (Returned a, s1)"
  shows "a = prompt e (regionQuestion dm)"
  using assms
  by (auto simp: promptWalkthroughQuestion_def regionQuestion_def throw_def Let_def
           split: if_splits)

text \<open>The steps after the region update keep the client as the update left it.\<close>

lemma selections_client:
  assumes "andThenP (total (selectCluster e inputs AWS))
       (\<lambda>(selectedClusterArn, clusterResourceId).
     andThenP (getSecretStoreArn e inputs clusterResourceId AWS)
       (\<lambda>selectedSecretArn.
     andThenP (total (selectDatabase e inputs selectedClusterArn selectedSecretArn AWS))
       (\<lambda>selectedDatabase. total (return (mk selectedClusterArn selectedSecretArn
                                              selectedDatabase))))) s = Some y"
  shows "client (snd y) = client s"
  using assms
  apply (rule andThenP_client)
   apply (erule total_client, rule selectCluster_client)
  apply (simp only: split_paired_all case_prod_conv)
  apply (erule andThenP_client)
   apply (erule getSecretStoreArn_client)
  apply (erule andThenP_client)
   apply (erule total_client, rule selectDatabase_client)
  apply (clarsimp simp: total_def return_def)
  done

lemma serviceWalkthrough_client:
  assumes "serviceWalkthrough e f dm s = Some y"
  shows "client (snd y) = client s \<or> client (snd y) = Some (regionClient e dm (ctx s))"
  using assms unfolding serviceWalkthrough_def
proof (cases rule: andThenP_SomeE)
  case (stop out s1)
  then have "s1 = snd (requireAppSyncApi s)" by (simp add: total_def)
  with stop(2) show ?thesis by (simp add: requireAppSyncApi_client)
next
  case (cont appSyncApi s1)
  then have s1: "s1 = snd (requireAppSyncApi s)" by (simp add: total_def)
  from cont(2) show ?thesis
  proof (cases rule: andThenP_SomeE)
    case (stop out s2)
    then have "s2 = snd (promptWalkthroughQuestion e (metadata_inputs dm) 0
                           (map Some (availableRegions dm)) s1)"
      by (simp add: total_def)
    with stop(2) s1 show ?thesis
      by (simp add: promptWalkthroughQuestion_client requireAppSyncApi_client)
  next
    case (cont selectedRegion s2)
    then have p: "promptWalkthroughQuestion e (metadata_inputs dm) 0
                    (map Some (availableRegions dm)) s1 = (Returned selectedRegion, s2)"
      by (simp add: total_def)
    from regionAnswer [OF p] have a: "selectedRegion = prompt e (regionQuestion dm)" .
    from p have "s2 = snd (promptWalkthroughQuestion e (metadata_inputs dm) 0
                             (map Some (availableRegions dm)) s1)"
      by simp
    then have c2: "ctx s2 = ctx s"
      using s1 by (simp add: promptWalkthroughQuestion_ctx requireAppSyncApi_ctx)
    from cont(2) show ?thesis
    proof (cases rule: andThenP_SomeE)
      case (stop out s3)
      then show ?thesis by (auto simp: total_def getAwsClient_def)
    next
      case (cont AWS0 s3)
      then have g: "AWS0 = getConfiguredAWSClient e (ctx s) ''aurora-serverless'' ''list''"
        using c2 by (auto simp: total_def getAwsClient_def)
      from cont(2) show ?thesis
      proof (cases rule: andThenP_SomeE)
        case (stop out s4)
        then show ?thesis by (auto simp: total_def configUpdate_def)
      next
        case (cont AWS s4)
        then have "client s4 = Some (regionClient e dm (ctx s))"
          using g a by (auto simp: total_def configUpdate_def emit_def regionClient_def)
        moreover from selections_client [OF cont(2)] have "client (snd y) = client s4" .
        ultimately show ?thesis by simp
      qed
    qed
  qed
qed

text \<open>A run that returns has made both writes.\<close>

lemma serviceWalkthrough_returned_state:
  assumes "serviceWalkthrough e f dm s = Some (Returned r, s')"
  shows "client s' = Some (regionClient e dm (ctx s))
     \<and> (\<exists>DBClusters.
           describeDBClusters e (regionClient e dm (ctx s)) (Some (dbClusterArn r)) = Inr DBClusters
           \<and> ctx s' = (ctx s)\<lparr>isPostgres :=
                 Some (list_ex (\<lambda>cluster. includes_str (Engine cluster) ''postgres'')
                         DBClusters)\<rparr>)"
proof -
  from assms obtain name s1 a s2 AWS0 s3 AWS s4 arn rid s5 sa s6 db where
    st: "requireAppSyncApi s = (Returned name, s1)"
      "promptWalkthroughQuestion e (metadata_inputs dm) 0 (map Some (availableRegions dm)) s1
         = (Returned a, s2)"
      "getAwsClient e ''list'' s2 = (Returned AWS0, s3)"
      "configUpdate AWS0 a s3 = (Returned AWS, s4)"
      "selectCluster e (metadata_inputs dm) AWS s4 = (Returned (arn, rid), s5)"
      "getSecretStoreArn e (metadata_inputs dm) rid AWS s5 = Some (Returned sa, s6)"
      "selectDatabase e (metadata_inputs dm) arn sa AWS s6 = (Returned db, s')"
      "dbClusterArn r = arn"
    unfolding serviceWalkthrough_def
    by (auto dest!: andThenP_Returned simp: total_def return_def)
  have c1: "ctx s1 = ctx s" using requireAppSyncApi_ctx [of s] st(1) by simp
  have c2: "ctx s2 = ctx s1"
    using promptWalkthroughQuestion_ctx
      [of e "metadata_inputs dm" 0 "map Some (availableRegions dm)" s1] st(2)
    by simp
  from st(3) have g: "AWS0 = getConfiguredAWSClient e (ctx s2) ''aurora-serverless'' ''list''"
    and c3: "ctx s3 = ctx s2"
    by (auto simp: getAwsClient_def emit_def)
  from st(4) have u: "AWS = AWS0\<lparr>config_region := Some a\<rparr>" and c4: "ctx s4 = ctx s3"
    and k4: "client s4 = Some AWS"
    by (auto simp: configUpdate_def emit_def)
  from regionAnswer [OF st(2)] g u c1 c2 have A: "AWS = regionClient e dm (ctx s)"
    by (simp add: regionClient_def)
  have c5: "ctx s5 = ctx s4" and k5: "client s5 = client s4"
    using selectCluster_ctx [of e "metadata_inputs dm" AWS s4]
      selectCluster_client [of e "metadata_inputs dm" AWS s4] st(5) by simp_all
  have c6: "ctx s6 = ctx s5" and k6: "client s6 = client s5"
    using getSecretStoreArn_ctx [OF st(6)] getSecretStoreArn_client [OF st(6)] by simp_all
  have k7: "client s' = client s6"
    using selectDatabase_client [of e "metadata_inputs dm" arn sa AWS s6] st(7) by simp
  obtain DBClusters where d: "describeDBClusters e AWS (Some arn) = Inr DBClusters"
    using st(7) by (cases "describeDBClusters e AWS (Some arn)") (auto simp: selectDatabase_def)
  have c7: "ctx s' = (ctx s6)\<lparr>isPostgres :=
              Some (list_ex (\<lambda>cluster. includes_str (Engine cluster) ''postgres'') DBClusters)\<rparr>"
    using selectDatabase_ctx [of e "metadata_inputs dm" arn sa AWS s6] st(7) d by simp
  from k4 k5 k6 k7 A have "client s' = Some (regionClient e dm (ctx s))" by simp
  moreover from d A st(8) have
    "describeDBClusters e (regionClient e dm (ctx s)) (Some (dbClusterArn r)) = Inr DBClusters"
    by simp
  moreover from c1 c2 c3 c4 c5 c6 c7 have
    "ctx s' = (ctx s)\<lparr>isPostgres :=
        Some (list_ex (\<lambda>cluster. includes_str (Engine cluster) ''postgres'') DBClusters)\<rparr>"
    by simp
  ultimately show ?thesis by blast
qed

subsection \<open>A complete run\<close>

lemma run0_full:
  "serviceWalkthrough env0 [] metadata0 (start twoApis) =
     Some (Returned result0, \<lparr>ctx = twoApis\<lparr>isPostgres := Some True\<rparr>, client = Some awsEast, trace = trace0\<rparr>)"
  by (simp add: walkthrough_defs all_example_defs)

section \<open>The claims\<close>

text \<open>C1, as the code has it. When no API resource of the project metadata is tagged
  \<open>AppSync\<close> (no metadata, no \<open>api\<close> category and an empty category included),
  \<^verbatim>\<open>serviceWalkthrough\<close> prints the "resource does not exist" message, emits it as
  telemetry and exits: these three events are all it adds to the trace, so no prompt is
  rendered and no provider call is issued. It gets past the check only when at least one
  resource is tagged, and the resource name of a result is the first tagged name in key
  order.\<close>

theorem serviceWalkthrough_precondition:
  "(appSyncApis (ctx s) = [] \<longrightarrow> serviceWalkthrough e f dm s = stoppedAtPrecondition s)
   \<and> (serviceWalkthrough e f dm s \<noteq> stoppedAtPrecondition s \<longrightarrow> appSyncApis (ctx s) \<noteq> [])
   \<and> (\<forall>r s'. serviceWalkthrough e f dm s = Some (Returned r, s')
         \<longrightarrow> (\<exists>rest. appSyncApis (ctx s) = resourceName r # rest))"
  using serviceWalkthrough_none_tagged [of s e f dm] serviceWalkthrough_returned_name [of e f dm s]
  by blast

text \<open>The theorem at the project with a REST API only, and at the project with two AppSync
  APIs.\<close>

theorem serviceWalkthrough_precondition_witness:
  "appSyncApis (ctx (start restOnly)) = []
   \<and> serviceWalkthrough env0 [] metadata0 (start restOnly) = stoppedAtPrecondition (start restOnly)
   \<and> serviceWalkthrough env0 [] metadata0 (start twoApis) \<noteq> stoppedAtPrecondition (start twoApis)
   \<and> appSyncApis (ctx (start twoApis)) \<noteq> []
   \<and> (\<exists>rest. appSyncApis (ctx (start twoApis)) = resourceName result0 # rest)"
proof -
  have none: "appSyncApis (ctx (start restOnly)) = []"
    by (simp add: appSyncApis_def example_defs)
  have two: "serviceWalkthrough env0 [] metadata0 (start twoApis) \<noteq> stoppedAtPrecondition (start twoApis)"
    using run0_full by (simp add: stoppedAtPrecondition_def)
  show ?thesis
    using none two run0_full
      serviceWalkthrough_precondition [of "start restOnly" env0 "[]" metadata0]
      serviceWalkthrough_precondition [of "start twoApis" env0 "[]" metadata0]
    by blast
qed

text \<open>C1 as stated fails where it says "exactly one": with two API resources tagged
  \<open>AppSync\<close> the walkthrough does not stop at the check, and returns a result.\<close>

theorem serviceWalkthrough_two_tagged:
  "length (appSyncApis (ctx (start twoApis))) = 2
   \<and> serviceWalkthrough env0 [] metadata0 (start twoApis) \<noteq> stoppedAtPrecondition (start twoApis)
   \<and> map_option fst (serviceWalkthrough env0 [] metadata0 (start twoApis)) = Some (Returned result0)"
  using run0_full by (simp add: stoppedAtPrecondition_def appSyncApis_def twoApis_def start_def)

text \<open>C2. When the merged listing holds a secret \<open>r\<close> whose name starts with
  \<open>rds-db-credentials/\<close> followed by the cluster's resource id, and no secret before it
  does, \<^verbatim>\<open>getSecretStoreArn\<close> returns the ARN of \<open>r\<close>, whatever the position of \<open>r\<close> and
  whatever follows it; the only events of the step are the listing calls, so the prompt
  engine is not invoked. The ARN of a secret is taken to be a non-empty string: the code
  tests the selected ARN for truthiness.\<close>

theorem getSecretStoreArn_autodetect:
  assumes "listAllSecrets e AWS s = Some (Returned (before @ r # rest), s1)"
    and "\<forall>x\<in>set before. \<not> (\<exists>t. Name x = ''rds-db-credentials/'' @ clusterResourceId @ t)"
    and "\<exists>t. Name r = ''rds-db-credentials/'' @ clusterResourceId @ t"
    and "ARN r \<noteq> []"
  shows "getSecretStoreArn e inputs clusterResourceId AWS s = Some (Returned (Some (ARN r)), s1)
         \<and> (\<exists>calls. trace s1 = trace s @ map (ListSecrets AWS) calls)"
proof -
  have "fst (scanSecrets (''rds-db-credentials/'' @ clusterResourceId) (before @ r # rest) [])
          = Some (ARN r)"
    using assms(2,3) by (intro scanSecrets_first) (simp_all add: startsWith_iff)
  then have "chooseSecret e inputs clusterResourceId (before @ r # rest) s1
               = (Returned (Some (ARN r)), s1)"
    using assms(4)
    by (cases "scanSecrets (''rds-db-credentials/'' @ clusterResourceId) (before @ r # rest) []")
       (simp add: chooseSecret_def return_def)
  then show ?thesis
    using assms(1) listAllSecrets_frame [OF assms(1)]
    by (simp add: getSecretStoreArn_def andThenP_def total_def)
qed

text \<open>The theorem at a listing whose second secret is the one of the cluster.\<close>

theorem getSecretStoreArn_autodetect_witness:
  "getSecretStoreArn env0 inputs0 ''cluster-ABC'' awsEast (start twoApis) =
     Some (Returned (Some ''arn:secret''),
           \<lparr>ctx = twoApis, client = None,
            trace = [ListSecrets awsEast \<lparr>MaxResults = 20, ParamNextToken = None\<rparr>]\<rparr>)"
proof -
  have l: "listAllSecrets env0 awsEast (start twoApis) =
      Some (Returned ([otherSecret] @ clusterSecret # []),
            \<lparr>ctx = twoApis, client = None,
             trace = [ListSecrets awsEast \<lparr>MaxResults = 20, ParamNextToken = None\<rparr>]\<rparr>)"
    by (simp add: listAllSecrets_def listMoreSecrets.simps emit_def env0_def start_def)
  have b: "\<forall>x\<in>set [otherSecret]. \<not> (\<exists>t. Name x = ''rds-db-credentials/'' @ ''cluster-ABC'' @ t)"
    by (simp add: otherSecret_def)
  have m: "\<exists>t. Name clusterSecret = ''rds-db-credentials/'' @ ''cluster-ABC'' @ t"
    by (simp add: clusterSecret_def)
  have a: "ARN clusterSecret \<noteq> []" by (simp add: clusterSecret_def)
  from getSecretStoreArn_autodetect [OF l b m a, of inputs0]
  show ?thesis by (simp add: clusterSecret_def)
qed

text \<open>C3. When the provider serves the pages \<open>ps\<close>, each but the last with a continuation
  token, the listing makes one call per page, threading the token, and returns the
  concatenation of the pages in order; \<^verbatim>\<open>getSecretStoreArn\<close> runs auto-detection and the
  prompt on that merged list, in the state reached after the last listing call. The merged
  list has as many secrets as the pages together.\<close>

theorem getSecretStoreArn_pagination:
  assumes "servesPages e AWS ps"
  shows "listAllSecrets e AWS s =
           Some (Returned (concat (map SecretList ps)),
                 s\<lparr>trace := trace s @ map (ListSecrets AWS) (listCalls None ps)\<rparr>)
       \<and> getSecretStoreArn e inputs clusterResourceId AWS s =
           Some (chooseSecret e inputs clusterResourceId (concat (map SecretList ps))
                   (s\<lparr>trace := trace s @ map (ListSecrets AWS) (listCalls None ps)\<rparr>))
       \<and> length (concat (map SecretList ps)) = sum_list (map (\<lambda>p. length (SecretList p)) ps)"
  using listAllSecrets_pages [OF assms, of s]
  by (simp add: getSecretStoreArn_def andThenP_def total_def length_concat comp_def)

text \<open>The theorem at two pages of 20 and 5 secrets: 25 candidates after two calls.\<close>

theorem getSecretStoreArn_pagination_witness:
  "servesPages envPages awsEast [page20, page5]
   \<and> listAllSecrets envPages awsEast (start twoApis) =
       Some (Returned (replicate 20 otherSecret @ replicate 5 clusterSecret),
             \<lparr>ctx = twoApis, client = None,
              trace = [ListSecrets awsEast \<lparr>MaxResults = 20, ParamNextToken = None\<rparr>,
                       ListSecrets awsEast \<lparr>MaxResults = 20, ParamNextToken = Some ''page2''\<rparr>]\<rparr>)
   \<and> length (replicate 20 otherSecret @ replicate 5 clusterSecret) = 25"
proof -
  have sp: "servesPages envPages awsEast [page20, page5]"
    by (simp add: envPages_def page20_def page5_def)
  from getSecretStoreArn_pagination [OF sp, of "start twoApis" inputs0 "''cluster-ABC''"] sp
  show ?thesis by (simp add: page20_def page5_def start_def)
qed

text \<open>C4. When the statement returns rows that each have a first field, the loop of
  \<^verbatim>\<open>selectDatabase\<close> takes the \<^verbatim>\<open>stringValue\<close> of the first field of each row, drops
  the values in the reserved set of the engine and keeps the row order; this list is what
  the database question offers, and an empty list ends the walkthrough.\<close>

theorem selectDatabase_candidates:
  assumes "describeDBClusters e AWS (Some clusterArn) = Inr DBClusters"
    and "pg = list_ex (\<lambda>cluster. includes_str (Engine cluster) ''postgres'') DBClusters"
    and "executeStatement e AWS (statementParams pg clusterArn sa) = Inr res"
    and "records res = Some rows"
    and "\<forall>row\<in>set rows. row \<noteq> []"
  shows "collectDatabases (validRecordValues pg) rows [] = (databaseCandidates pg rows, None)
     \<and> selectDatabase e inputs clusterArn sa AWS s =
         (if databaseCandidates pg rows \<noteq> [] then
            promptWalkthroughQuestion e inputs 3 (databaseCandidates pg rows)
              (afterStatement pg clusterArn sa AWS s)
          else
            reportAndExit ResourceDoesNotExistError ''No properly configured databases found.''
              (afterStatement pg clusterArn sa AWS s))
     \<and> databaseCandidates pg rows =
         filter (\<lambda>v. v \<notin> Some ` (if pg then {''rdsadmin'', ''postgres'', ''template1'', ''template0''}
                                 else {''information_schema'', ''performance_schema'', ''mysql''}))
           (map (\<lambda>row. stringValue (hd row)) rows)"
proof -
  have m: "map firstValue rows = map (\<lambda>row. stringValue (hd row)) rows"
    using assms(5) by (induction rows) (auto simp: neq_Nil_conv)
  have "databaseCandidates pg rows =
         filter (\<lambda>v. v \<notin> Some ` (if pg then {''rdsadmin'', ''postgres'', ''template1'', ''template0''}
                                 else {''information_schema'', ''performance_schema'', ''mysql''}))
           (map (\<lambda>row. stringValue (hd row)) rows)"
    unfolding databaseCandidates_def m by (simp add: validRecordValues_def)
  moreover have "collectDatabases (validRecordValues pg) rows [] = (databaseCandidates pg rows, None)"
    using assms(5) by (simp add: collectDatabases_rows databaseCandidates_def)
  ultimately show ?thesis
    using selectDatabase_rows [OF assms, of inputs s] by simp
qed

text \<open>The theorem at the rows \<open>rdsadmin\<close>, \<open>postgres\<close>, \<open>app_db\<close> of a Postgres cluster:
  the candidates are \<open>app_db\<close> alone.\<close>

theorem selectDatabase_candidates_witness:
  "databaseCandidates True appRows = [Some ''app_db'']
   \<and> selectDatabase envApp inputs0 ''arn:cluster'' (Some ''arn:secret'') awsEast (start twoApis) =
       (Returned ''app_db'',
        \<lparr>ctx = twoApis\<lparr>isPostgres := Some True\<rparr>, client = None,
         trace = [DescribeDBClusters awsEast (Some ''arn:cluster''),
                  SpinnerStart ''Fetching Aurora Serverless cluster...'',
                  ExecuteStatement awsEast
                    \<lparr>secretArn = Some ''arn:secret'', resourceArn = ''arn:cluster'',
                     sql = ''SELECT datname FROM pg_database;''\<rparr>,
                  SpinnerSucceed ''Fetched Aurora Serverless cluster.'',
                  Prompt \<lparr>q_type = ''list'', q_name = ''databaseName'', q_message = ''Database'',
                          q_choices = [Some ''app_db'']\<rparr>]\<rparr>)"
proof -
  have d: "describeDBClusters envApp awsEast (Some ''arn:cluster'') = Inr [cluster0]"
    by (simp add: envApp_def env0_def)
  have p: "True = list_ex (\<lambda>cluster. includes_str (Engine cluster) ''postgres'') [cluster0]"
    by (simp add: cluster0_def)
  have x: "executeStatement envApp awsEast (statementParams True ''arn:cluster'' (Some ''arn:secret''))
             = Inr \<lparr>records = Some appRows\<rparr>"
    by (simp add: envApp_def env0_def)
  have r: "records \<lparr>records = Some appRows\<rparr> = Some appRows" by simp
  have n: "\<forall>row\<in>set appRows. row \<noteq> []" by (simp add: appRows_def)
  have c: "databaseCandidates True appRows = [Some ''app_db'']"
    by (simp add: databaseCandidates_def validRecordValues_def appRows_def)
  from selectDatabase_candidates [OF d p x r n, of inputs0 "start twoApis"] c
  show ?thesis
    by (simp add: promptWalkthroughQuestion_def afterStatement_def statementParams_def emit_def
          inputs0_def envApp_def env0_def start_def)
qed

text \<open>C5. \<^verbatim>\<open>selectDatabase\<close> classifies the described cluster as Postgres exactly when
  an engine name of the description contains \<open>postgres\<close> as a substring, compared
  character by character; it records the classification in \<^verbatim>\<open>context.isPostgres\<close>,
  sends exactly one statement, the catalog query for Postgres and \<open>show databases\<close>
  otherwise, and filters the rows with the reserved names of the same engine.\<close>

theorem selectDatabase_engine:
  assumes "describeDBClusters e AWS (Some clusterArn) = Inr DBClusters"
    and "pg = list_ex (\<lambda>cluster. includes_str (Engine cluster) ''postgres'') DBClusters"
  shows "(pg \<longleftrightarrow> (\<exists>cluster\<in>set DBClusters. \<exists>a b. Engine cluster = a @ ''postgres'' @ b))
     \<and> isPostgres (ctx (snd (selectDatabase e inputs clusterArn sa AWS s))) = Some pg
     \<and> statements (trace (snd (selectDatabase e inputs clusterArn sa AWS s))) =
         statements (trace s) @
           [\<lparr>secretArn = sa, resourceArn = clusterArn,
             sql = (if pg then ''SELECT datname FROM pg_database;'' else ''show databases'')\<rparr>]
     \<and> (\<forall>res rows.
           executeStatement e AWS (statementParams pg clusterArn sa) = Inr res
           \<and> records res = Some rows \<and> (\<forall>row\<in>set rows. row \<noteq> []) \<longrightarrow>
           collectDatabases
             (if pg then [''rdsadmin'', ''postgres'', ''template1'', ''template0'']
              else [''information_schema'', ''performance_schema'', ''mysql'']) rows []
             = (databaseCandidates pg rows, None)
           \<and> selectDatabase e inputs clusterArn sa AWS s =
               (if databaseCandidates pg rows \<noteq> [] then
                  promptWalkthroughQuestion e inputs 3 (databaseCandidates pg rows)
                    (afterStatement pg clusterArn sa AWS s)
                else
                  reportAndExit ResourceDoesNotExistError
                    ''No properly configured databases found.''
                    (afterStatement pg clusterArn sa AWS s)))"
proof (intro conjI allI impI)
  show "pg \<longleftrightarrow> (\<exists>cluster\<in>set DBClusters. \<exists>a b. Engine cluster = a @ ''postgres'' @ b)"
    unfolding assms(2) list_ex_iff includes_str_iff ..
  show "isPostgres (ctx (snd (selectDatabase e inputs clusterArn sa AWS s))) = Some pg"
    using assms by (simp add: selectDatabase_ctx)
  show "statements (trace (snd (selectDatabase e inputs clusterArn sa AWS s))) =
         statements (trace s) @
           [\<lparr>secretArn = sa, resourceArn = clusterArn,
             sql = (if pg then ''SELECT datname FROM pg_database;'' else ''show databases'')\<rparr>]"
    using selectDatabase_statements [OF assms, of inputs sa s] by (simp add: statementParams_def)
next
  fix res rows
  assume h: "executeStatement e AWS (statementParams pg clusterArn sa) = Inr res
           \<and> records res = Some rows \<and> (\<forall>row\<in>set rows. row \<noteq> [])"
  then show "collectDatabases
             (if pg then [''rdsadmin'', ''postgres'', ''template1'', ''template0'']
              else [''information_schema'', ''performance_schema'', ''mysql'']) rows []
             = (databaseCandidates pg rows, None)"
    using collectDatabases_rows [of rows "validRecordValues pg" "[]"]
    by (simp add: databaseCandidates_def validRecordValues_def)
  from h show "selectDatabase e inputs clusterArn sa AWS s =
               (if databaseCandidates pg rows \<noteq> [] then
                  promptWalkthroughQuestion e inputs 3 (databaseCandidates pg rows)
                    (afterStatement pg clusterArn sa AWS s)
                else
                  reportAndExit ResourceDoesNotExistError
                    ''No properly configured databases found.''
                    (afterStatement pg clusterArn sa AWS s))"
    using selectDatabase_rows [OF assms, of sa res rows inputs s] by simp
qed

text \<open>The theorem at the engines \<open>aurora-postgresql\<close> and \<open>aurora-mysql\<close>.\<close>

theorem selectDatabase_engine_witness:
  "isPostgres (ctx (snd (selectDatabase env0 inputs0 ''arn:cluster'' (Some ''arn:secret'') awsEast
                          (start twoApis)))) = Some True
   \<and> statements (trace (snd (selectDatabase env0 inputs0 ''arn:cluster'' (Some ''arn:secret'')
                                 awsEast (start twoApis)))) =
       [\<lparr>secretArn = Some ''arn:secret'', resourceArn = ''arn:cluster'',
         sql = ''SELECT datname FROM pg_database;''\<rparr>]
   \<and> isPostgres (ctx (snd (selectDatabase envMysql inputs0 ''arn:cluster'' (Some ''arn:secret'')
                              awsEast (start twoApis)))) = Some False
   \<and> statements (trace (snd (selectDatabase envMysql inputs0 ''arn:cluster'' (Some ''arn:secret'')
                                 awsEast (start twoApis)))) =
       [\<lparr>secretArn = Some ''arn:secret'', resourceArn = ''arn:cluster'', sql = ''show databases''\<rparr>]
   \<and> selectDatabase envMysql inputs0 ''arn:cluster'' (Some ''arn:secret'') awsEast (start twoApis) =
       promptWalkthroughQuestion envMysql inputs0 3 [Some ''shop'']
         (afterStatement False ''arn:cluster'' (Some ''arn:secret'') awsEast (start twoApis))"
proof -
  have d0: "describeDBClusters env0 awsEast (Some ''arn:cluster'') = Inr [cluster0]"
    by (simp add: env0_def)
  have p0: "True = list_ex (\<lambda>cluster. includes_str (Engine cluster) ''postgres'') [cluster0]"
    by (simp add: cluster0_def)
  have d1: "describeDBClusters envMysql awsEast (Some ''arn:cluster'') =
              Inr [cluster0\<lparr>Engine := ''aurora-mysql''\<rparr>]"
    by (simp add: envMysql_def)
  have p1: "False = list_ex (\<lambda>cluster. includes_str (Engine cluster) ''postgres'')
                      [cluster0\<lparr>Engine := ''aurora-mysql''\<rparr>]"
    by simp
  have x1: "executeStatement envMysql awsEast
              (statementParams False ''arn:cluster'' (Some ''arn:secret''))
            = Inr \<lparr>records = Some shopRows\<rparr>"
    by (simp add: envMysql_def)
  have n1: "\<forall>row\<in>set shopRows. row \<noteq> []" by (simp add: shopRows_def)
  have c1: "databaseCandidates False shopRows = [Some ''shop'']"
    by (simp add: databaseCandidates_def validRecordValues_def shopRows_def)
  note t0 = selectDatabase_engine [OF d0 p0, of inputs0 "Some ''arn:secret''" "start twoApis"]
  note t1 = selectDatabase_engine [OF d1 p1, of inputs0 "Some ''arn:secret''" "start twoApis"]
  have a0: "isPostgres (ctx (snd (selectDatabase env0 inputs0 ''arn:cluster'' (Some ''arn:secret'')
                                   awsEast (start twoApis)))) = Some True"
    using t0 by blast
  have b0: "statements (trace (snd (selectDatabase env0 inputs0 ''arn:cluster''
                                      (Some ''arn:secret'') awsEast (start twoApis)))) =
       [\<lparr>secretArn = Some ''arn:secret'', resourceArn = ''arn:cluster'',
         sql = ''SELECT datname FROM pg_database;''\<rparr>]"
    using t0 [THEN conjunct2, THEN conjunct2, THEN conjunct1] by (simp add: start_def)
  have a1: "isPostgres (ctx (snd (selectDatabase envMysql inputs0 ''arn:cluster''
                                   (Some ''arn:secret'') awsEast (start twoApis)))) = Some False"
    using t1 by blast
  have b1: "statements (trace (snd (selectDatabase envMysql inputs0 ''arn:cluster''
                                      (Some ''arn:secret'') awsEast (start twoApis)))) =
       [\<lparr>secretArn = Some ''arn:secret'', resourceArn = ''arn:cluster'', sql = ''show databases''\<rparr>]"
    using t1 [THEN conjunct2, THEN conjunct2, THEN conjunct1] by (simp add: start_def)
  have r1: "records \<lparr>records = Some shopRows\<rparr> = Some shopRows" by simp
  from t1 [THEN conjunct2, THEN conjunct2, THEN conjunct2, rule_format,
           of "\<lparr>records = Some shopRows\<rparr>" shopRows] x1 r1 n1
  have e1: "selectDatabase envMysql inputs0 ''arn:cluster'' (Some ''arn:secret'') awsEast
              (start twoApis) =
       promptWalkthroughQuestion envMysql inputs0 3 [Some ''shop'']
         (afterStatement False ''arn:cluster'' (Some ''arn:secret'') awsEast (start twoApis))"
    by (simp add: c1)
  from a0 b0 a1 b1 e1 show ?thesis by blast
qed



text \<open>C7. When the cluster listing has no entry whose engine mode is \<open>serverless\<close> (the
  empty listing included), \<^verbatim>\<open>selectCluster\<close> prints and emits "No properly configured
  Aurora Serverless clusters found." and exits, without a prompt; a walkthrough that got
  past the precondition check ends there, after the region question, the region update
  of the client and the cluster listing, and never lists secrets.\<close>

theorem selectCluster_no_serverless:
  assumes "describeDBClusters e AWS None = Inr rawClusters"
    and "\<forall>c\<in>set rawClusters. EngineMode c \<noteq> ''serverless''"
  shows "selectCluster e inputs AWS s =
     (Exited 0,
      s\<lparr>trace := trace s @
          [DescribeDBClusters AWS None,
           PrintError ''No properly configured Aurora Serverless clusters found.'',
           EmitError ResourceDoesNotExistError
             ''No properly configured Aurora Serverless clusters found.'',
           ExitOnNextTick 0]\<rparr>)
     \<and> (\<forall>name rest. appSyncApis (ctx s) = name # rest \<and> name \<noteq> [] \<and> metadata_inputs dm \<noteq> []
            \<and> AWS = regionClient e dm (ctx s) \<longrightarrow>
          serviceWalkthrough e f dm s =
            Some (Exited 0,
                  s\<lparr>client := Some AWS,
                    trace := trace s @
                      [Prompt (regionQuestion dm),
                       GetConfiguredAWSClient ''aurora-serverless'' ''list'',
                       ConfigUpdate (prompt e (regionQuestion dm)),
                       DescribeDBClusters AWS None,
                       PrintError ''No properly configured Aurora Serverless clusters found.'',
                       EmitError ResourceDoesNotExistError
                         ''No properly configured Aurora Serverless clusters found.'',
                       ExitOnNextTick 0]\<rparr>))"
proof (intro conjI allI impI)
  show "selectCluster e inputs AWS s =
     (Exited 0,
      s\<lparr>trace := trace s @
          [DescribeDBClusters AWS None,
           PrintError ''No properly configured Aurora Serverless clusters found.'',
           EmitError ResourceDoesNotExistError
             ''No properly configured Aurora Serverless clusters found.'',
           ExitOnNextTick 0]\<rparr>)"
    by (rule selectCluster_none [OF assms])
next
  fix name rest
  assume h: "appSyncApis (ctx s) = name # rest \<and> name \<noteq> [] \<and> metadata_inputs dm \<noteq> []
            \<and> AWS = regionClient e dm (ctx s)"
  then have req: "requireAppSyncApi s = (Returned name, s)"
    by (simp add: requireAppSyncApi_eq)
  from h have len: "0 < length (metadata_inputs dm)" by simp
  from h have A: "AWS = regionClient e dm (ctx s)" by simp
  have sc: "selectCluster e inputs (regionClient e dm (ctx s)) t =
     (Exited 0,
      t\<lparr>trace := trace t @
          [DescribeDBClusters (regionClient e dm (ctx s)) None,
           PrintError ''No properly configured Aurora Serverless clusters found.'',
           EmitError ResourceDoesNotExistError
             ''No properly configured Aurora Serverless clusters found.'',
           ExitOnNextTick 0]\<rparr>)" for inputs t
    using selectCluster_none [OF assms] unfolding A .
  show "serviceWalkthrough e f dm s =
            Some (Exited 0,
                  s\<lparr>client := Some AWS,
                    trace := trace s @
                      [Prompt (regionQuestion dm),
                       GetConfiguredAWSClient ''aurora-serverless'' ''list'',
                       ConfigUpdate (prompt e (regionQuestion dm)),
                       DescribeDBClusters AWS None,
                       PrintError ''No properly configured Aurora Serverless clusters found.'',
                       EmitError ResourceDoesNotExistError
                         ''No properly configured Aurora Serverless clusters found.'',
                       ExitOnNextTick 0]\<rparr>)"
    unfolding A
    using len
    by (simp add: serviceWalkthrough_def andThenP_def total_def req promptWalkthroughQuestion_def
          getAwsClient_def configUpdate_def sc [unfolded regionClient_def regionQuestion_def]
          emit_def Let_def regionQuestion_def regionClient_def)
qed

text \<open>The theorem at a provider whose only cluster is provisioned.\<close>

theorem selectCluster_no_serverless_witness:
  "selectCluster envProvisioned inputs0 awsEast (start twoApis) =
     (Exited 0,
      \<lparr>ctx = twoApis, client = None,
       trace = [DescribeDBClusters awsEast None,
                PrintError ''No properly configured Aurora Serverless clusters found.'',
                EmitError ResourceDoesNotExistError
                  ''No properly configured Aurora Serverless clusters found.'',
                ExitOnNextTick 0]\<rparr>)
   \<and> serviceWalkthrough envProvisioned [] metadata0 (start twoApis) =
       Some (Exited 0,
             \<lparr>ctx = twoApis, client = Some awsEast,
              trace = [Prompt \<lparr>q_type = ''list'', q_name = ''region'', q_message = ''Region'',
                               q_choices = [Some ''us-east-1'', Some ''eu-west-1'']\<rparr>,
                       GetConfiguredAWSClient ''aurora-serverless'' ''list'',
                       ConfigUpdate ''us-east-1'',
                       DescribeDBClusters awsEast None,
                       PrintError ''No properly configured Aurora Serverless clusters found.'',
                       EmitError ResourceDoesNotExistError
                         ''No properly configured Aurora Serverless clusters found.'',
                       ExitOnNextTick 0]\<rparr>)"
proof -
  have d: "describeDBClusters envProvisioned awsEast None = Inr [cluster0\<lparr>EngineMode := ''provisioned''\<rparr>]"
    by (simp add: envProvisioned_def)
  have n: "\<forall>c\<in>set [cluster0\<lparr>EngineMode := ''provisioned''\<rparr>]. EngineMode c \<noteq> ''serverless''"
    by simp
  have a: "appSyncApis (ctx (start twoApis)) = ''blog'' # [''shop'']"
    by (simp add: appSyncApis_def twoApis_def start_def)
  have c: "awsEast = regionClient envProvisioned metadata0 (ctx (start twoApis))"
    by (simp add: regionClient_def regionQuestion_def all_example_defs)
  have i: "metadata_inputs metadata0 \<noteq> []" by (simp add: metadata0_def inputs0_def)
  from selectCluster_no_serverless [OF d n, of inputs0 "start twoApis" metadata0 "[]"] a c i
  show ?thesis
    by (simp add: regionQuestion_def all_example_defs)
qed

text \<open>C8, as the code has it. The steps of the walkthrough write caller-visible state in two
  places. \<^verbatim>\<open>serviceWalkthrough\<close> sets the region in the configuration of the SDK client
  that the provider plugin handed out, in place; \<^verbatim>\<open>selectDatabase\<close> sets
  \<^verbatim>\<open>context.isPostgres\<close> to the engine classification as soon as the cluster description
  has succeeded. Every other property of the host context is as it was after every run,
  successful or failing; the prompts, the cluster selection, the secret selection and the
  database selection do not write the client; and a successful run returns its result with
  exactly these two writes made.\<close>

theorem walkthrough_frame:
  "(\<forall>y. serviceWalkthrough e f dm s = Some y \<longrightarrow>
      sameExceptIsPostgres (ctx s) (ctx (snd y))
      \<and> (client (snd y) = client s \<or> client (snd y) = Some (regionClient e dm (ctx s))))
   \<and> (\<forall>r s'. serviceWalkthrough e f dm s = Some (Returned r, s') \<longrightarrow>
        client s' = Some (regionClient e dm (ctx s))
        \<and> (\<exists>DBClusters.
              describeDBClusters e (regionClient e dm (ctx s)) (Some (dbClusterArn r))
                = Inr DBClusters
              \<and> ctx s' = (ctx s)\<lparr>isPostgres :=
                    Some (list_ex (\<lambda>cluster. includes_str (Engine cluster) ''postgres'')
                            DBClusters)\<rparr>))
   \<and> ctx (snd (promptWalkthroughQuestion e inputs n choices s)) = ctx s
   \<and> client (snd (promptWalkthroughQuestion e inputs n choices s)) = client s
   \<and> ctx (snd (getAwsClient e action s)) = ctx s
   \<and> client (snd (getAwsClient e action s))
        = Some (getConfiguredAWSClient e (ctx s) ''aurora-serverless'' action)
   \<and> ctx (snd (configUpdate AWS selectedRegion s)) = ctx s
   \<and> client (snd (configUpdate AWS selectedRegion s))
        = Some (AWS\<lparr>config_region := Some selectedRegion\<rparr>)
   \<and> ctx (snd (selectCluster e inputs AWS s)) = ctx s
   \<and> client (snd (selectCluster e inputs AWS s)) = client s
   \<and> (\<forall>y. getSecretStoreArn e inputs clusterResourceId AWS s = Some y \<longrightarrow>
          ctx (snd y) = ctx s \<and> client (snd y) = client s)
   \<and> ctx (snd (selectDatabase e inputs clusterArn sa AWS s)) =
       (case describeDBClusters e AWS (Some clusterArn) of
          Inl err \<Rightarrow> ctx s
        | Inr DBClusters \<Rightarrow>
            (ctx s)\<lparr>isPostgres :=
              Some (list_ex (\<lambda>cluster. includes_str (Engine cluster) ''postgres'') DBClusters)\<rparr>)
   \<and> client (snd (selectDatabase e inputs clusterArn sa AWS s)) = client s"
  using serviceWalkthrough_frame [of e f dm s] serviceWalkthrough_client [of e f dm s]
    serviceWalkthrough_returned_state [of e f dm s]
    getSecretStoreArn_ctx [of e inputs clusterResourceId AWS s]
    getSecretStoreArn_client [of e inputs clusterResourceId AWS s]
  by (simp add: promptWalkthroughQuestion_ctx promptWalkthroughQuestion_client selectCluster_ctx
        selectCluster_client selectDatabase_ctx selectDatabase_client getAwsClient_def
        configUpdate_def emit_def)

text \<open>The theorem at the complete run, at its secret selection and at its region update.\<close>

theorem walkthrough_frame_witness:
  "serviceWalkthrough env0 [] metadata0 (start twoApis) =
     Some (Returned result0, \<lparr>ctx = twoApis\<lparr>isPostgres := Some True\<rparr>, client = Some awsEast, trace = trace0\<rparr>)
   \<and> sameExceptIsPostgres twoApis (twoApis\<lparr>isPostgres := Some True\<rparr>)
   \<and> Some awsEast = Some (regionClient env0 metadata0 twoApis)
   \<and> describeDBClusters env0 (regionClient env0 metadata0 twoApis) (Some ''arn:cluster'')
       = Inr [cluster0]
   \<and> getSecretStoreArn env0 inputs0 ''cluster-ABC'' awsEast (start twoApis) \<noteq> None
   \<and> ctx (snd (the (getSecretStoreArn env0 inputs0 ''cluster-ABC'' awsEast (start twoApis)))) = twoApis
   \<and> client (snd (the (getSecretStoreArn env0 inputs0 ''cluster-ABC'' awsEast (start twoApis)))) = None
   \<and> client (snd (configUpdate \<lparr>config_region = None\<rparr> ''us-east-1'' (start twoApis))) = Some awsEast"
proof -
  obtain y where g: "getSecretStoreArn env0 inputs0 ''cluster-ABC'' awsEast (start twoApis) = Some y"
    by (simp add: walkthrough_defs all_example_defs)
  note w = walkthrough_frame [where e = env0 and f = "[]" and dm = metadata0
      and s = "start twoApis" and inputs = inputs0 and n = 0 and choices = "[]"
      and action = "''list''" and AWS = awsEast and selectedRegion = "''us-east-1''"
      and clusterResourceId = "''cluster-ABC''" and clusterArn = "''arn:cluster''" and sa = None]
  note w' = walkthrough_frame [where e = env0 and f = "[]" and dm = metadata0
      and s = "start twoApis" and inputs = inputs0 and n = 0 and choices = "[]"
      and action = "''list''" and AWS = "\<lparr>config_region = None\<rparr>"
      and selectedRegion = "''us-east-1''"
      and clusterResourceId = "''cluster-ABC''" and clusterArn = "''arn:cluster''" and sa = None]
  from w g have c: "ctx (snd y) = ctx (start twoApis) \<and> client (snd y) = client (start twoApis)"
    by blast
  from w run0_full have f:
    "sameExceptIsPostgres (ctx (start twoApis))
       (ctx (snd (Returned result0, \<lparr>ctx = twoApis\<lparr>isPostgres := Some True\<rparr>, client = Some awsEast, trace = trace0\<rparr>)))"
    by blast
  from w run0_full have r:
    "client \<lparr>ctx = twoApis\<lparr>isPostgres := Some True\<rparr>, client = Some awsEast, trace = trace0\<rparr>
       = Some (regionClient env0 metadata0 (ctx (start twoApis)))"
    by blast
  from w' have u: "client (snd (configUpdate \<lparr>config_region = None\<rparr> ''us-east-1'' (start twoApis)))
       = Some (\<lparr>config_region = None\<rparr>\<lparr>config_region := Some ''us-east-1''\<rparr>)"
    by blast
  have d: "describeDBClusters env0 (regionClient env0 metadata0 twoApis) (Some ''arn:cluster'')
       = Inr [cluster0]"
    by (simp add: env0_def)
  from run0_full g c f r u d show ?thesis by (simp add: start_def awsEast_def)
qed

text \<open>C8 as stated fails: the complete run returns with \<^verbatim>\<open>context.isPostgres\<close> set, in
  a context that did not have the property, and with the region written into the client
  that the provider plugin handed out without one.\<close>

theorem walkthrough_sets_isPostgres:
  "serviceWalkthrough env0 [] metadata0 (start twoApis) =
     Some (Returned result0, \<lparr>ctx = twoApis\<lparr>isPostgres := Some True\<rparr>, client = Some awsEast, trace = trace0\<rparr>)
   \<and> ctx (start twoApis) = twoApis
   \<and> twoApis\<lparr>isPostgres := Some True\<rparr> \<noteq> twoApis
   \<and> getConfiguredAWSClient env0 twoApis ''aurora-serverless'' ''list'' = \<lparr>config_region = None\<rparr>
   \<and> awsEast \<noteq> \<lparr>config_region = None\<rparr>"
  using run0_full by (simp add: start_def twoApis_def env0_def awsEast_def)

text \<open>C9. Whatever error the statement execution throws, \<^verbatim>\<open>selectDatabase\<close> catches
  it: the step never throws, the candidate list is empty and the walkthrough ends with
  "No properly configured databases found.". The remediation message is among the events
  of the step exactly when the code of the error is \<open>BadRequestException\<close> and its
  message contains \<open>Access denied for user\<close>.\<close>

theorem selectDatabase_statement_error:
  assumes "describeDBClusters e AWS (Some clusterArn) = Inr DBClusters"
    and "pg = list_ex (\<lambda>cluster. includes_str (Engine cluster) ''postgres'') DBClusters"
    and "executeStatement e AWS (statementParams pg clusterArn sa) = Inl err"
  shows "selectDatabase e inputs clusterArn sa AWS s =
     (Exited 0,
      s\<lparr>ctx := (ctx s)\<lparr>isPostgres := Some pg\<rparr>,
        trace := trace s @
          [DescribeDBClusters AWS (Some clusterArn),
           SpinnerStart ''Fetching Aurora Serverless cluster...'',
           ExecuteStatement AWS (statementParams pg clusterArn sa),
           SpinnerFail (message err)]
          @ (if code err = Some ''BadRequestException''
                \<and> (\<exists>a b. message err = a @ ''Access denied for user'' @ b)
             then [PrintError (msg sa)] else [])
          @ [PrintError ''No properly configured databases found.'',
             EmitError ResourceDoesNotExistError ''No properly configured databases found.'',
             ExitOnNextTick 0]\<rparr>)
     \<and> (\<forall>thrown. fst (selectDatabase e inputs clusterArn sa AWS s) \<noteq> Threw thrown)
     \<and> (PrintError (msg sa)
          \<in> set (drop (length (trace s)) (trace (snd (selectDatabase e inputs clusterArn sa AWS s))))
        \<longleftrightarrow> code err = Some ''BadRequestException''
            \<and> (\<exists>a b. message err = a @ ''Access denied for user'' @ b))"
proof -
  have ne: "msg sa \<noteq> ''No properly configured databases found.''"
    by (simp add: msg_def)
  show ?thesis
    using selectDatabase_failed [OF assms, of inputs s] ne
    by (simp add: includes_str_iff)
qed

text \<open>The theorem at a data API whose endpoint is not enabled: no remediation message.\<close>

theorem selectDatabase_statement_error_witness:
  "selectDatabase envOff inputs0 ''arn:cluster'' (Some ''arn:secret'') awsEast (start twoApis) =
     (Exited 0,
      \<lparr>ctx = twoApis\<lparr>isPostgres := Some True\<rparr>, client = None,
       trace =
         [DescribeDBClusters awsEast (Some ''arn:cluster''),
          SpinnerStart ''Fetching Aurora Serverless cluster...'',
          ExecuteStatement awsEast
            \<lparr>secretArn = Some ''arn:secret'', resourceArn = ''arn:cluster'',
             sql = ''SELECT datname FROM pg_database;''\<rparr>,
          SpinnerFail ''HttpEndpoint is not enabled'',
          PrintError ''No properly configured databases found.'',
          EmitError ResourceDoesNotExistError ''No properly configured databases found.'',
          ExitOnNextTick 0]\<rparr>)"
proof -
  have d: "describeDBClusters envOff awsEast (Some ''arn:cluster'') = Inr [cluster0]"
    by (simp add: envOff_def env0_def)
  have p: "True = list_ex (\<lambda>cluster. includes_str (Engine cluster) ''postgres'') [cluster0]"
    by (simp add: cluster0_def)
  have x: "executeStatement envOff awsEast
             (statementParams True ''arn:cluster'' (Some ''arn:secret'')) = Inl endpointOff"
    by (simp add: envOff_def)
  have n: "\<not> (\<exists>a b. message endpointOff = a @ ''Access denied for user'' @ b)"
    unfolding includes_str_iff [symmetric] by (simp add: endpointOff_def)
  from selectDatabase_statement_error [OF d p x, of inputs0 "start twoApis"] n
  show ?thesis by (simp add: statementParams_def start_def endpointOff_def)
qed

text \<open>C10. For project metadata that has the \<open>awscloudformation\<close> provider entry,
  \<^verbatim>\<open>getAllDefaults\<close> returns a record whose resource name is the part of the generated
  UUID before its first hyphen, whose policy name is \<open>Policy\<close> followed by that
  identifier, whose region is the one of the provider entry, and whose two role names are
  the references \<open>AuthRoleName\<close> and \<open>UnauthRoleName\<close>, not resolved values.\<close>

theorem getAllDefaults_record:
  assumes "amplifyMeta p = Some m" and "providers m = Some ps"
    and "awscloudformation ps = Some cfn"
  shows "\<exists>d. getAllDefaults p uuid = Inr d
           \<and> defaults.resourceName d = takeWhile (\<lambda>x. x \<noteq> CHR ''-'') uuid
           \<and> convertPolicyName d = ''Policy'' @ defaults.resourceName d
           \<and> defaults.region d = Region cfn
           \<and> authRoleName d = \<lparr>Ref = ''AuthRoleName''\<rparr>
           \<and> unauthRoleName d = \<lparr>Ref = ''UnauthRoleName''\<rparr>"
  using assms by (simp add: getAllDefaults_def shortId_eq)

text \<open>The theorem at a project in \<open>us-east-1\<close> and one UUID.\<close>

theorem getAllDefaults_record_witness:
  "getAllDefaults project0 ''1b9d6bcd-bbfd-4b2d-9b5d-ab8dfbbd4bed'' =
     Inr \<lparr>defaults.resourceName = ''1b9d6bcd'', defaults.region = Some ''us-east-1'',
          convertPolicyName = ''Policy1b9d6bcd'',
          authRoleName = \<lparr>Ref = ''AuthRoleName''\<rparr>, unauthRoleName = \<lparr>Ref = ''UnauthRoleName''\<rparr>\<rparr>"
  using getAllDefaults_record [of project0
      "\<lparr>providers = Some \<lparr>awscloudformation = Some \<lparr>Region = Some ''us-east-1''\<rparr>\<rparr>, api = None\<rparr>"
      "\<lparr>awscloudformation = Some \<lparr>Region = Some ''us-east-1''\<rparr>\<rparr>"
      "\<lparr>Region = Some ''us-east-1''\<rparr>"
      "''1b9d6bcd-bbfd-4b2d-9b5d-ab8dfbbd4bed''"]
  by (auto simp add: project0_def)

end
